theory Spec2Isabelle
  imports Main "HOL-Library.Word" "HOL-Library.Sublist"
begin

unbundle bit_operations_syntax

section \<open>Python values and the library functions the client calls\<close>

text \<open>
  The values the client handles are the results of \<^verbatim>\<open>json.loads\<close>, the strings of the
  configuration and \<^verbatim>\<open>None\<close>. A dictionary is an association list in insertion order
  (Python dictionaries keep it); a float is kept as its 64 bits, and every operation on
  floats is left to the runtime below. Text is a \<^typ>\<open>string\<close>; \<^verbatim>\<open>encode('utf-8')\<close> is the
  identity on it.
\<close>

datatype pyval =
    PNone
  | PBool bool
  | PInt int
  | PFloat "64 word"
  | PStr string
  | PList "pyval list"
  | PDict "(string \<times> pyval) list"

datatype py_error =
    AttributeError
  | TypeError
  | ValueError
  | JSONDecodeError
  | PublishError
  | ConnectionError

text \<open>
  The functions of Python's runtime and of the libraries that \<^verbatim>\<open>DahuaVTO.py\<close> calls and does
  not define are parameters of the model:
  \<^item> \<open>json_loads\<close>: \<^verbatim>\<open>json.loads\<close>, \<open>None\<close> when it raises;
  \<^item> \<open>md5\<close>: \<^verbatim>\<open>hashlib.md5(bytes).digest()\<close>, the 16 bytes read as one big-endian number;
  \<^item> \<open>float_eq_int\<close>, \<open>float_sub_int\<close>: \<^verbatim>\<open>==\<close> and \<^verbatim>\<open>-\<close> between a float and an int;
  \<^item> \<open>str_other\<close>: \<^verbatim>\<open>str()\<close> of a float, a list or a dictionary;
  \<^item> \<open>publish_raises\<close>: whether \<^verbatim>\<open>mqtt_client.publish(topic, json.dumps(v, indent=4))\<close> raises.
\<close>

record pylib =
  json_loads :: "string \<Rightarrow> pyval option"
  md5 :: "string \<Rightarrow> 128 word"
  float_eq_int :: "64 word \<Rightarrow> int \<Rightarrow> bool"
  float_sub_int :: "64 word \<Rightarrow> int \<Rightarrow> 64 word"
  str_other :: "pyval \<Rightarrow> string"
  publish_raises :: "string \<Rightarrow> pyval \<Rightarrow> bool"

subsection \<open>Dictionaries\<close>

text \<open>\<^verbatim>\<open>d.get(k)\<close> on a dictionary: the value, or \<^verbatim>\<open>None\<close>.\<close>

definition dict_get :: "(string \<times> pyval) list \<Rightarrow> string \<Rightarrow> pyval" where
  "dict_get kvs k = (case map_of kvs k of None \<Rightarrow> PNone | Some v \<Rightarrow> v)"

text \<open>\<^verbatim>\<open>v.get(k)\<close> on any value: only a dictionary has the method.\<close>

definition py_get :: "pyval \<Rightarrow> string \<Rightarrow> py_error + pyval" where
  "py_get v k = (case v of PDict kvs \<Rightarrow> Inr (dict_get kvs k) | _ \<Rightarrow> Inl AttributeError)"

text \<open>\<^verbatim>\<open>d[k] = v\<close>: an existing key keeps its place, a new key goes to the end.\<close>

fun dict_set :: "string \<Rightarrow> pyval \<Rightarrow> (string \<times> pyval) list \<Rightarrow> (string \<times> pyval) list" where
  "dict_set k v [] = [(k, v)]"
| "dict_set k v ((k', v') # kvs) =
     (if k' = k then (k, v) # kvs else (k', v') # dict_set k v kvs)"

subsection \<open>Comparison, subtraction and formatting\<close>

text \<open>\<^verbatim>\<open>v == n\<close> for an int \<open>n\<close>: \<^verbatim>\<open>True == 1\<close> and \<^verbatim>\<open>1.0 == 1\<close> hold in Python.\<close>

definition py_eq_int :: "pylib \<Rightarrow> pyval \<Rightarrow> int \<Rightarrow> bool" where
  "py_eq_int lib v n =
     (case v of
        PInt m \<Rightarrow> m = n
      | PBool b \<Rightarrow> (if b then 1 else 0) = n
      | PFloat f \<Rightarrow> float_eq_int lib f n
      | _ \<Rightarrow> False)"

text \<open>\<^verbatim>\<open>v - n\<close> for an int \<open>n\<close>: a TypeError unless \<open>v\<close> is a number.\<close>

definition py_sub_int :: "pylib \<Rightarrow> pyval \<Rightarrow> int \<Rightarrow> py_error + pyval" where
  "py_sub_int lib v n =
     (case v of
        PInt m \<Rightarrow> Inr (PInt (m - n))
      | PBool b \<Rightarrow> Inr (PInt ((if b then 1 else 0) - n))
      | PFloat f \<Rightarrow> Inr (PFloat (float_sub_int lib f n))
      | _ \<Rightarrow> Inl TypeError)"

definition digit_char :: "nat \<Rightarrow> char" where
  "digit_char n = ''0123456789abcdef'' ! (n mod 16)"

fun str_nat :: "nat \<Rightarrow> string" where
  "str_nat n = (if n < 10 then [digit_char n] else str_nat (n div 10) @ [digit_char (n mod 10)])"

declare str_nat.simps [simp del]

definition str_int :: "int \<Rightarrow> string" where
  "str_int i = (if i < 0 then CHR ''-'' # str_nat (nat (- i)) else str_nat (nat i))"

text \<open>What an f-string puts for \<^verbatim>\<open>{v}\<close>: \<^verbatim>\<open>str(v)\<close>.\<close>

definition py_str :: "pylib \<Rightarrow> pyval \<Rightarrow> string" where
  "py_str lib v =
     (case v of
        PNone \<Rightarrow> ''None''
      | PBool b \<Rightarrow> (if b then ''True'' else ''False'')
      | PInt i \<Rightarrow> str_int i
      | PStr s \<Rightarrow> s
      | _ \<Rightarrow> str_other lib v)"

section \<open>Credential hasher\<close>

text \<open>\<^verbatim>\<open>hexdigest()\<close>: the 32 hexadecimal digits of the digest, in lower case.\<close>

definition hexdigest :: "128 word \<Rightarrow> string" where
  "hexdigest w = map (\<lambda>i. digit_char (unat (drop_bit (4 * (31 - i)) w) mod 16)) [0..<32]"

definition upper_char :: "char \<Rightarrow> char" where
  "upper_char c =
     (case map_of (zip ''abcdefghijklmnopqrstuvwxyz'' ''ABCDEFGHIJKLMNOPQRSTUVWXYZ'') c of
        None \<Rightarrow> c
      | Some u \<Rightarrow> u)"

text \<open>\<^verbatim>\<open>str.upper()\<close>, on the ASCII text it is applied to here.\<close>

definition upper :: "string \<Rightarrow> string" where
  "upper s = map upper_char s"

text \<open>
  \<^verbatim>\<open>_get_hashed_password(random, realm, username, password)\<close>: the arguments are whatever
  the session holds, put into the two f-strings.
\<close>

definition get_hashed_password :: "pylib \<Rightarrow> pyval \<Rightarrow> pyval \<Rightarrow> pyval \<Rightarrow> pyval \<Rightarrow> string" where
  "get_hashed_password lib random realm username password =
     (let password_str = py_str lib username @ '':'' @ py_str lib realm @ '':'' @ py_str lib password;
          password_hash = upper (hexdigest (md5 lib password_str));
          random_str = py_str lib username @ '':'' @ py_str lib random @ '':'' @ password_hash;
          random_hash = upper (hexdigest (md5 lib random_str))
      in random_hash)"

section \<open>Message codec: decoding\<close>

text \<open>
  \<^verbatim>\<open>str(response)\<close> of a \<^verbatim>\<open>bytes\<close> object is its \<^verbatim>\<open>repr\<close>: the letter b, a quote, the
  bytes with the quote and the backslash escaped, tab, newline and carriage return as
  \<^verbatim>\<open>\t \n \r\<close>, every other byte below 0x20 or from 0x7f on as \<^verbatim>\<open>\xhh\<close>, and the quote. The
  quote is the apostrophe, unless the bytes hold an apostrophe and no double quote.
\<close>

definition bytes_quote :: "string \<Rightarrow> char" where
  "bytes_quote bs = (if CHR 0x27 \<in> set bs \<and> CHR 0x22 \<notin> set bs then CHR 0x22 else CHR 0x27)"

definition escape_byte :: "char \<Rightarrow> char \<Rightarrow> string" where
  "escape_byte q c =
     (if c = q \<or> c = CHR 0x5C then [CHR 0x5C, c]
      else if c = CHR 0x09 then [CHR 0x5C, CHR ''t'']
      else if c = CHR 0x0A then [CHR 0x5C, CHR ''n'']
      else if c = CHR 0x0D then [CHR 0x5C, CHR ''r'']
      else if (of_char c :: nat) < 0x20 \<or> 0x7F \<le> (of_char c :: nat)
        then [CHR 0x5C, CHR ''x'', digit_char (of_char c div 16), digit_char (of_char c mod 16)]
      else [c])"

definition str_bytes :: "string \<Rightarrow> string" where
  "str_bytes bs =
     (let q = bytes_quote bs in CHR ''b'' # q # concat (map (escape_byte q) bs) @ [q])"

text \<open>
  \<^verbatim>\<open>s.split(sep)\<close>: the pieces between the occurrences of \<open>sep\<close>, found from the left and
  not overlapping. (Python raises on an empty separator; the client's separators are
  constants.)
\<close>

fun py_split_from :: "string \<Rightarrow> string \<Rightarrow> string \<Rightarrow> string list" where
  "py_split_from sep cur [] = [cur]"
| "py_split_from sep cur (c # s) =
     (if sep \<noteq> [] \<and> prefix sep (c # s)
      then cur # py_split_from sep [] (drop (length sep) (c # s))
      else py_split_from sep (cur @ [c]) s)"

definition py_split :: "string \<Rightarrow> string \<Rightarrow> string list" where
  "py_split sep s = py_split_from sep [] s"

text \<open>\<^verbatim>\<open>s.rindex(c)\<close> for one character: the last index of \<open>c\<close>, \<open>None\<close> for the ValueError.\<close>

fun rindex_from :: "char \<Rightarrow> nat \<Rightarrow> string \<Rightarrow> nat option \<Rightarrow> nat option" where
  "rindex_from c i [] found = found"
| "rindex_from c i (x # xs) found = rindex_from c (Suc i) xs (if x = c then Some i else found)"

definition py_rindex :: "string \<Rightarrow> char \<Rightarrow> nat option" where
  "py_rindex s c = rindex_from c 0 s None"

text \<open>The separator of \<^verbatim>\<open>parse_response\<close>, written \<^verbatim>\<open>"\\x00"\<close> in the source: four characters.\<close>

definition nul_text :: string where
  "nul_text = [CHR 0x5C, CHR ''x'', CHR ''0'', CHR ''0'']"

text \<open>
  The loop of \<^verbatim>\<open>parse_response\<close> over the parts, from the current \<open>result\<close>. An exception
  (no closing brace, or \<^verbatim>\<open>json.loads\<close> raising) ends the loop; the \<^verbatim>\<open>except\<close> clause logs it
  and the result so far is returned. The second component is the exception caught.
\<close>

fun parse_parts :: "pylib \<Rightarrow> string list \<Rightarrow> pyval \<Rightarrow> pyval \<times> py_error option" where
  "parse_parts lib [] result = (result, None)"
| "parse_parts lib (response_part # rest) result =
     (if prefix ''{'' response_part then
        (case py_rindex response_part (CHR ''}'') of
           None \<Rightarrow> (result, Some ValueError)
         | Some i \<Rightarrow>
             (let message = take (i + 1) response_part
              in case json_loads lib message of
                   None \<Rightarrow> (result, Some JSONDecodeError)
                 | Some v \<Rightarrow> parse_parts lib rest v))
      else parse_parts lib rest result)"

definition parse_response :: "pylib \<Rightarrow> string \<Rightarrow> pyval \<times> py_error option" where
  "parse_response lib response = parse_parts lib (py_split nul_text (str_bytes response)) PNone"

text \<open>
  The segments of a chunk of bytes between its NUL bytes, for comparison with what the
  decoder splits.
\<close>

fun nul_split_from :: "string \<Rightarrow> string \<Rightarrow> string list" where
  "nul_split_from cur [] = [cur]"
| "nul_split_from cur (c # s) =
     (if c = CHR 0x00 then cur # nul_split_from [] s else nul_split_from (cur @ [c]) s)"

definition nul_segments :: "string \<Rightarrow> string list" where
  "nul_segments bs = nul_split_from [] bs"

text \<open>
  A plain chunk: NUL bytes and printable ASCII characters other than the backslash and the
  apostrophe, so that \<^verbatim>\<open>str()\<close> changes nothing but the NUL bytes.
\<close>

definition plain_byte :: "char \<Rightarrow> bool" where
  "plain_byte c \<longleftrightarrow>
     c = CHR 0x00 \<or> (0x20 \<le> (of_char c :: nat) \<and> (of_char c :: nat) < 0x7F
       \<and> c \<noteq> CHR 0x5C \<and> c \<noteq> CHR 0x27)"

definition plain_chunk :: "string \<Rightarrow> bool" where
  "plain_chunk bs \<longleftrightarrow> list_all plain_byte bs"

section \<open>The protocol client\<close>

subsection \<open>Requests\<close>

text \<open>
  Modelled from the spec: the class \<^verbatim>\<open>MessageData\<close> of the module \<^verbatim>\<open>Messages\<close>, which is not
  among the sources. A request object holds an id, a session and what one of its builders
  \<^verbatim>\<open>login\<close>, \<^verbatim>\<open>attach\<close>, \<^verbatim>\<open>keep_alive\<close> put into it; \<^verbatim>\<open>login\<close> without a password sends
  the empty password. The bytes of \<^verbatim>\<open>to_message()\<close> are not modelled: a write is recorded
  with the request object written.
\<close>

datatype request =
    NoRequest
  | Login pyval pyval
  | Attach
  | KeepAlive pyval

record message_data =
  md_id :: int
  md_session :: pyval
  md_request :: request

definition MessageData :: "int \<Rightarrow> pyval \<Rightarrow> message_data" where
  "MessageData i s = \<lparr>md_id = i, md_session = s, md_request = NoRequest\<rparr>"

definition md_login :: "pyval \<Rightarrow> pyval \<Rightarrow> message_data \<Rightarrow> message_data" where
  "md_login u p m = m\<lparr>md_request := Login u p\<rparr>"

definition md_attach :: "message_data \<Rightarrow> message_data" where
  "md_attach m = m\<lparr>md_request := Attach\<rparr>"

definition md_keep_alive :: "pyval \<Rightarrow> message_data \<Rightarrow> message_data" where
  "md_keep_alive interval m = m\<lparr>md_request := KeepAlive interval\<rparr>"

subsection \<open>State and effects\<close>

datatype level = DEBUG | INFO | WARNING | ERROR

text \<open>One constructor for each logging call of the source.\<close>

datatype log_text =
    ConnectionEstablished
  | FailedToHandleMessage py_error
  | DataReceived pyval
  | PublishingMqttMessage string pyval
  | FailedToHandleEvent py_error
  | ServerSentEOF
  | ServerClosedConnection
  | PreparePreLogin
  | PrepareLogin
  | AttachEventManager
  | KeepAliveText
  | FailedToReadData string py_error
  | ConnectingMqttBroker

text \<open>
  What the client does to the outside: a log record, a write to the transport, a started
  \<^verbatim>\<open>Timer(interval, self.keep_alive)\<close>, a call \<^verbatim>\<open>publish(topic, json.dumps(v, indent=4))\<close> (kept as
  the topic and the value serialised), a stop of the event loop, the start of the MQTT
  client.
\<close>

datatype effect =
    Log level log_text
  | Write message_data
  | StartTimer pyval
  | Publish string pyval
  | LoopStop
  | MqttStart

text \<open>
  The attributes of \<^verbatim>\<open>DahuaVTOClient\<close> that the protocol uses. \<open>transport\<close> is \<open>None\<close>
  before \<^verbatim>\<open>connection_made\<close>, afterwards \<open>Some c\<close> where \<open>c\<close> is what \<^verbatim>\<open>is_closing()\<close>
  answers. \<open>effects\<close> is the history of what the client did.
\<close>

record client =
  username :: pyval
  password :: pyval
  mqtt_broker_topic_prefix :: pyval
  dahua_details :: "(string \<times> pyval) list"
  realm :: pyval
  random :: pyval
  request_id :: int
  sessionId :: pyval
  keep_alive_interval :: pyval
  transport :: "bool option"
  effects :: "effect list"

definition emit :: "effect \<Rightarrow> client \<Rightarrow> client" where
  "emit e st = st\<lparr>effects := effects st @ [e]\<rparr>"

text \<open>\<^verbatim>\<open>__init__\<close>, from the three settings of the environment that the protocol uses.\<close>

definition init_client :: "pyval \<Rightarrow> pyval \<Rightarrow> pyval \<Rightarrow> client" where
  "init_client u p topic_prefix =
     \<lparr>username = u, password = p, mqtt_broker_topic_prefix = topic_prefix, dahua_details = [],
      realm = PNone, random = PNone, request_id = 1, sessionId = PInt 0,
      keep_alive_interval = PInt 0, transport = None, effects = []\<rparr>"

subsection \<open>Sending\<close>

text \<open>
  The functions that can raise return the exception, if any, with the state reached.
\<close>

definition send :: "message_data \<Rightarrow> client \<Rightarrow> py_error option \<times> client" where
  "send message_data st =
     (let st1 = st\<lparr>request_id := request_id st + 1\<rparr>;
          m = message_data\<lparr>md_id := request_id st1\<rparr>
      in case transport st1 of
           None \<Rightarrow> (Some AttributeError, st1)
         | Some closing \<Rightarrow> (None, if \<not> closing then emit (Write m) st1 else st1))"

definition pre_login :: "client \<Rightarrow> py_error option \<times> client" where
  "pre_login st =
     (let st1 = emit (Log DEBUG PreparePreLogin) st;
          m = md_login (username st1) (PStr []) (MessageData (request_id st1) (sessionId st1))
      in case transport st1 of
           None \<Rightarrow> (Some AttributeError, st1)
         | Some closing \<Rightarrow> (None, if \<not> closing then emit (Write m) st1 else st1))"

definition login :: "pylib \<Rightarrow> client \<Rightarrow> py_error option \<times> client" where
  "login lib st =
     (let st1 = emit (Log DEBUG PrepareLogin) st;
          hashed = get_hashed_password lib (random st1) (realm st1) (username st1) (password st1);
          m = md_login (username st1) (PStr hashed) (MessageData (request_id st1) (sessionId st1))
      in send m st1)"

definition attach_event_manager :: "client \<Rightarrow> py_error option \<times> client" where
  "attach_event_manager st =
     (let st1 = emit (Log INFO AttachEventManager) st;
          m = md_attach (MessageData (request_id st1) (sessionId st1))
      in send m st1)"

definition keep_alive :: "client \<Rightarrow> py_error option \<times> client" where
  "keep_alive st =
     (let st1 = emit (Log DEBUG KeepAliveText) st;
          m = md_keep_alive (keep_alive_interval st1) (MessageData (request_id st1) (sessionId st1))
      in case send m st1 of
           (Some e, st2) \<Rightarrow> (Some e, st2)
         | (None, st2) \<Rightarrow> (None, emit (StartTimer (keep_alive_interval st2)) st2))"

subsection \<open>Handlers\<close>

definition handle_login_error ::
    "pylib \<Rightarrow> pyval \<Rightarrow> pyval \<Rightarrow> pyval \<Rightarrow> client \<Rightarrow> py_error option \<times> client" where
  "handle_login_error lib error message params st =
     (case py_get error ''message'' of
        Inl e \<Rightarrow> (Some e, st)
      | Inr error_message \<Rightarrow>
          if error_message = PStr ''Component error: login challenge!'' then
            (case py_get params ''random'' of
               Inl e \<Rightarrow> (Some e, st)
             | Inr v1 \<Rightarrow>
                 (let st1 = st\<lparr>random := v1\<rparr>
                  in case py_get params ''realm'' of
                       Inl e \<Rightarrow> (Some e, st1)
                     | Inr v2 \<Rightarrow>
                         (let st2 = st1\<lparr>realm := v2\<rparr>
                          in case py_get message ''session'' of
                               Inl e \<Rightarrow> (Some e, st2)
                             | Inr v3 \<Rightarrow> login lib (st2\<lparr>sessionId := v3\<rparr>))))
          else (None, st))"

definition handle_login :: "pylib \<Rightarrow> pyval \<Rightarrow> client \<Rightarrow> py_error option \<times> client" where
  "handle_login lib params st =
     (case py_get params ''keepAliveInterval'' of
        Inl e \<Rightarrow> (Some e, st)
      | Inr interval \<Rightarrow>
          if interval \<noteq> PNone then
            (case py_sub_int lib interval 5 of
               Inl e \<Rightarrow> (Some e, st)
             | Inr v \<Rightarrow>
                 (let st1 = st\<lparr>keep_alive_interval := v\<rparr>;
                      st2 = emit (StartTimer (keep_alive_interval st1)) st1
                  in attach_event_manager st2))
          else (None, st))"

definition DAHUA_ALLOWED_DETAILS :: "string list" where
  "DAHUA_ALLOWED_DETAILS = [''deviceType'', ''serialNumber'']"

text \<open>The inner loop of \<^verbatim>\<open>handle_notify_event_stream\<close>, over the keys of the device details.\<close>

fun merge_details ::
    "string list \<Rightarrow> (string \<times> pyval) list \<Rightarrow> (string \<times> pyval) list \<Rightarrow> (string \<times> pyval) list" where
  "merge_details [] details message = message"
| "merge_details (k # ks) details message =
     merge_details ks details
       (if k \<in> set DAHUA_ALLOWED_DETAILS then dict_set k (dict_get details k) message
        else message)"

text \<open>The body of the outer loop, for one element of the event list.\<close>

definition publish_event :: "pylib \<Rightarrow> pyval \<Rightarrow> client \<Rightarrow> py_error option \<times> client" where
  "publish_event lib message st =
     (case message of
        PDict kvs \<Rightarrow>
          (let code = dict_get kvs ''Code'';
               merged = PDict (merge_details (map fst (dahua_details st)) (dahua_details st) kvs);
               topic = py_str lib (mqtt_broker_topic_prefix st) @ ''/'' @ py_str lib code @ ''/Event'';
               st1 = emit (Log DEBUG (PublishingMqttMessage topic merged)) st
           in if publish_raises lib topic merged then (Some PublishError, st1)
              else (None, emit (Publish topic merged) st1))
      | _ \<Rightarrow> (Some AttributeError, st))"

fun publish_events :: "pylib \<Rightarrow> pyval list \<Rightarrow> client \<Rightarrow> py_error option \<times> client" where
  "publish_events lib [] st = (None, st)"
| "publish_events lib (message # rest) st =
     (case publish_event lib message st of
        (Some e, st1) \<Rightarrow> (Some e, st1)
      | (None, st1) \<Rightarrow> publish_events lib rest st1)"

text \<open>
  What a \<^verbatim>\<open>for\<close> loop goes through: the elements of a list, the characters of a string, the
  keys of a dictionary; anything else is not iterable.
\<close>

definition py_iter :: "pyval \<Rightarrow> py_error + pyval list" where
  "py_iter v =
     (case v of
        PList xs \<Rightarrow> Inr xs
      | PStr s \<Rightarrow> Inr (map (\<lambda>c. PStr [c]) s)
      | PDict kvs \<Rightarrow> Inr (map (\<lambda>kv. PStr (fst kv)) kvs)
      | _ \<Rightarrow> Inl TypeError)"

definition handle_notify_event_stream :: "pylib \<Rightarrow> pyval \<Rightarrow> client \<Rightarrow> client" where
  "handle_notify_event_stream lib params st =
     (case (case py_get params ''eventList'' of
              Inl e \<Rightarrow> (Some e, st)
            | Inr event_list \<Rightarrow>
                (case py_iter event_list of
                   Inl e \<Rightarrow> (Some e, st)
                 | Inr messages \<Rightarrow> publish_events lib messages st)) of
        (Some e, st1) \<Rightarrow> emit (Log ERROR (FailedToHandleEvent e)) st1
      | (None, st1) \<Rightarrow> st1)"

definition dispatch :: "pylib \<Rightarrow> pyval \<Rightarrow> client \<Rightarrow> py_error option \<times> client" where
  "dispatch lib message st =
     (case py_get message ''id'' of
        Inl e \<Rightarrow> (Some e, st)
      | Inr message_id \<Rightarrow>
          (case py_get message ''params'' of
             Inl e \<Rightarrow> (Some e, st)
           | Inr params \<Rightarrow>
               if py_eq_int lib message_id 1 then
                 (case py_get message ''error'' of
                    Inl e \<Rightarrow> (Some e, st)
                  | Inr error \<Rightarrow>
                      if error \<noteq> PNone then handle_login_error lib error message params st
                      else (None, st))
               else if py_eq_int lib message_id 2 then handle_login lib params st
               else
                 (case py_get message ''method'' of
                    Inl e \<Rightarrow> (Some e, st)
                  | Inr method \<Rightarrow>
                      if method = PStr ''client.notifyEventStream''
                      then (None, handle_notify_event_stream lib params st)
                      else (None, st))))"

text \<open>
  \<^verbatim>\<open>data_received\<close>: \<open>dispatch\<close> is the body of its \<^verbatim>\<open>try\<close> after the message is parsed
  and logged.
\<close>

definition data_received :: "pylib \<Rightarrow> string \<Rightarrow> client \<Rightarrow> client" where
  "data_received lib data st =
     (let (message, caught) = parse_response lib data;
          st0 = (case caught of
                   None \<Rightarrow> st
                 | Some e \<Rightarrow> emit (Log ERROR (FailedToReadData data e)) st);
          st1 = emit (Log DEBUG (DataReceived message)) st0
      in case dispatch lib message st1 of
           (Some e, st2) \<Rightarrow> emit (Log ERROR (FailedToHandleMessage e)) st2
         | (None, st2) \<Rightarrow> st2)"

definition eof_received :: "client \<Rightarrow> client" where
  "eof_received st = emit LoopStop (emit (Log INFO ServerSentEOF) st)"

definition connection_lost :: "client \<Rightarrow> client" where
  "connection_lost st = emit LoopStop (emit (Log ERROR ServerClosedConnection) st)"

text \<open>
  \<^verbatim>\<open>connection_made\<close>. The transport handed over is open. \<^verbatim>\<open>load_dahua_info\<close> is an HTTP
  request that catches its own exceptions: \<open>details\<close> is the dictionary it leaves.
  \<open>mqtt_raises\<close> says whether \<^verbatim>\<open>initialize_mqtt_client\<close> raises (the broker cannot be reached).
\<close>

definition initialize_mqtt_client :: "bool \<Rightarrow> client \<Rightarrow> py_error option \<times> client" where
  "initialize_mqtt_client mqtt_raises st =
     (let st1 = emit (Log INFO ConnectingMqttBroker) st
      in if mqtt_raises then (Some ConnectionError, st1) else (None, emit MqttStart st1))"

definition connection_made :: "(string \<times> pyval) list \<Rightarrow> bool \<Rightarrow> client \<Rightarrow> client" where
  "connection_made details mqtt_raises st =
     (let st1 = emit (Log DEBUG ConnectionEstablished) st;
          st2 = st1\<lparr>transport := Some False\<rparr>;
          st3 = st2\<lparr>dahua_details := details\<rparr>
      in case initialize_mqtt_client mqtt_raises st3 of
           (Some e, st4) \<Rightarrow> emit (Log ERROR (FailedToHandleMessage e)) st4
         | (None, st4) \<Rightarrow>
             (case pre_login st4 of
                (Some e, st5) \<Rightarrow> emit (Log ERROR (FailedToHandleMessage e)) st5
              | (None, st5) \<Rightarrow> st5))"

subsection \<open>Runs of one connection\<close>

text \<open>
  What happens to a client after \<^verbatim>\<open>connection_made\<close>: a chunk arrives, a keep-alive timer
  fires, the transport starts closing, the peer sends EOF (the transport then closes, as
  \<^verbatim>\<open>eof_received\<close> returns nothing), the connection is lost (the transport is closing when
  \<^verbatim>\<open>connection_lost\<close> is called). Each callback runs to its end before the next.
\<close>

datatype event =
    ChunkArrives string
  | TimerFires
  | TransportCloses
  | PeerSendsEOF
  | ConnectionLost

definition close_transport :: "client \<Rightarrow> client" where
  "close_transport st = (case transport st of None \<Rightarrow> st | Some c \<Rightarrow> st\<lparr>transport := Some True\<rparr>)"

fun step :: "pylib \<Rightarrow> event \<Rightarrow> client \<Rightarrow> client" where
  "step lib (ChunkArrives data) st = data_received lib data st"
| "step lib TimerFires st = snd (keep_alive st)"
| "step lib TransportCloses st = close_transport st"
| "step lib PeerSendsEOF st = close_transport (eof_received st)"
| "step lib ConnectionLost st = connection_lost (close_transport st)"

fun run :: "pylib \<Rightarrow> event list \<Rightarrow> client \<Rightarrow> client" where
  "run lib [] st = st"
| "run lib (ev # evs) st = run lib evs (step lib ev st)"

text \<open>The ids of the requests written to the transport, in order.\<close>

fun written_ids :: "effect list \<Rightarrow> int list" where
  "written_ids [] = []"
| "written_ids (Write m # es) = md_id m # written_ids es"
| "written_ids (_ # es) = written_ids es"

fun started_timers :: "effect list \<Rightarrow> pyval list" where
  "started_timers [] = []"
| "started_timers (StartTimer v # es) = v # started_timers es"
| "started_timers (_ # es) = started_timers es"

fun written :: "effect list \<Rightarrow> message_data list" where
  "written [] = []"
| "written (Write m # es) = m # written es"
| "written (_ # es) = written es"

section \<open>Connection manager\<close>

text \<open>
  How one pass through the \<^verbatim>\<open>try\<close> block of \<^verbatim>\<open>DahuaVTOManager.initialize\<close> ends: the
  connection was made, the event loop ran until it was stopped and was closed
  (\<open>Disconnected\<close>); an \<^verbatim>\<open>Exception\<close> was raised in the block, as when the connection cannot
  be made (\<open>Failed\<close>); an exception that \<^verbatim>\<open>except Exception\<close> does not catch, such as a
  keyboard interrupt (\<open>Interrupted\<close>).
\<close>

datatype attempt = Disconnected | Failed | Interrupted

datatype manager_text = Connecting | DisconnectedRetryIn5 | ConnectionFailedRetryIn30

datatype manager_effect =
    ManagerLog level manager_text
  | RunClient
  | Sleep nat

text \<open>The body of the \<^verbatim>\<open>while True\<close> loop: what it does, and whether the loop goes on.\<close>

fun attempt_once :: "attempt \<Rightarrow> manager_effect list \<times> bool" where
  "attempt_once Disconnected =
     ([ManagerLog INFO Connecting, RunClient, ManagerLog WARNING DisconnectedRetryIn5, Sleep 5], True)"
| "attempt_once Failed =
     ([ManagerLog INFO Connecting, ManagerLog ERROR ConnectionFailedRetryIn30, Sleep 30], True)"
| "attempt_once Interrupted = ([ManagerLog INFO Connecting], False)"

text \<open>
  The loop over the outcomes of the attempts made so far: what the manager did and whether
  it is still looping. The loop has no exit of its own.
\<close>

fun initialize :: "attempt list \<Rightarrow> manager_effect list \<times> bool" where
  "initialize [] = ([], True)"
| "initialize (a # rest) =
     (case attempt_once a of
        (did, True) \<Rightarrow> (case initialize rest of (later, looping) \<Rightarrow> (did @ later, looping))
      | (did, False) \<Rightarrow> (did, False))"

fun sleeps :: "manager_effect list \<Rightarrow> nat list" where
  "sleeps [] = []"
| "sleeps (Sleep n # es) = n # sleeps es"
| "sleeps (_ # es) = sleeps es"

section \<open>Vocabulary of the properties\<close>

text \<open>What \<^verbatim>\<open>data_received\<close> logs before it looks at the message.\<close>

definition received_logs :: "string \<Rightarrow> pyval \<times> py_error option \<Rightarrow> effect list" where
  "received_logs data r =
     (case snd r of None \<Rightarrow> [] | Some e \<Rightarrow> [Log ERROR (FailedToReadData data e)])
     @ [Log DEBUG (DataReceived (fst r))]"

fun is_log :: "effect \<Rightarrow> bool" where
  "is_log (Log l t) = True"
| "is_log _ = False"

text \<open>
  \<open>only_logged st st'\<close>: from \<open>st\<close> to \<open>st'\<close> nothing happened but logging: every attribute is
  as it was, and the effects added are log records.
\<close>

definition only_logged :: "client \<Rightarrow> client \<Rightarrow> bool" where
  "only_logged st st' \<longleftrightarrow>
     st' = st\<lparr>effects := effects st'\<rparr>
     \<and> take (length (effects st)) (effects st') = effects st
     \<and> list_all is_log (drop (length (effects st)) (effects st'))"

text \<open>The \<^verbatim>\<open>error\<close> of a response is the login challenge.\<close>

definition is_challenge :: "pyval \<Rightarrow> bool" where
  "is_challenge error =
     (case error of
        PDict e \<Rightarrow> dict_get e ''message'' = PStr ''Component error: login challenge!''
      | _ \<Rightarrow> False)"

definition is_dict :: "pyval \<Rightarrow> bool" where
  "is_dict v = (case v of PDict kvs \<Rightarrow> True | _ \<Rightarrow> False)"

definition is_number :: "pyval \<Rightarrow> bool" where
  "is_number v = (case v of PInt i \<Rightarrow> True | PBool b \<Rightarrow> True | PFloat f \<Rightarrow> True | _ \<Rightarrow> False)"

text \<open>The \<^verbatim>\<open>params\<close> of a response hold a number as \<^verbatim>\<open>keepAliveInterval\<close>.\<close>

definition has_interval :: "pyval \<Rightarrow> bool" where
  "has_interval params =
     (case params of PDict ps \<Rightarrow> is_number (dict_get ps ''keepAliveInterval'') | _ \<Rightarrow> False)"

text \<open>
  The invariant of the request counter: the ids written so far are 1, 2, ..., n; while
  the transport is open the counter is n.
\<close>

definition ids_consecutive :: "client \<Rightarrow> bool" where
  "ids_consecutive st \<longleftrightarrow>
     written_ids (effects st) = map int [1..<Suc (length (written_ids (effects st)))]
     \<and> (transport st = Some False \<longrightarrow> request_id st = int (length (written_ids (effects st))))
     \<and> transport st \<noteq> None"

text \<open>
  The event that \<^verbatim>\<open>handle_notify_event_stream\<close> publishes for an event of the list, and
  the topic it publishes it to.
\<close>

definition enriched :: "(string \<times> pyval) list \<Rightarrow> (string \<times> pyval) list \<Rightarrow> (string \<times> pyval) list" where
  "enriched details kvs = merge_details (map fst details) details kvs"

definition event_topic :: "pylib \<Rightarrow> pyval \<Rightarrow> (string \<times> pyval) list \<Rightarrow> string" where
  "event_topic lib topic_prefix kvs =
     py_str lib topic_prefix @ ''/'' @ py_str lib (dict_get kvs ''Code'') @ ''/Event''"

fun published :: "effect list \<Rightarrow> (string \<times> pyval) list" where
  "published [] = []"
| "published (Publish topic v # es) = (topic, v) # published es"
| "published (_ # es) = published es"

text \<open>
  A segment at which the loop of \<^verbatim>\<open>parse_response\<close> raises: it begins with a brace and
  either has no closing brace or its text up to the last closing brace is refused by
  \<^verbatim>\<open>json.loads\<close>.
\<close>

definition undecodable :: "pylib \<Rightarrow> string \<Rightarrow> bool" where
  "undecodable lib s \<longleftrightarrow>
     prefix ''{'' s
     \<and> (case py_rindex s (CHR ''}'') of
          None \<Rightarrow> True
        | Some i \<Rightarrow> json_loads lib (take (i + 1) s) = None)"

section \<open>An example environment\<close>

text \<open>
  The examples run the client with these library functions: \<^verbatim>\<open>json.loads\<close> is given at the
  texts that the examples decode, with the values that Python returns for them;
  the digest is a stand-in, of which the examples use no property.
\<close>

definition example_loads :: "string \<Rightarrow> pyval option" where
  "example_loads = map_of
     [(''{\"id\":1,\"foo\":\"a}b\"}'',
         PDict [(''id'', PInt 1), (''foo'', PStr ''a}b'')]),
      (''{\"id\":1}'',
         PDict [(''id'', PInt 1)]),
      (''{\"id\":1,\"error\":{\"message\":\"Component error: login challenge!\"},\"params\":{\"random\":\"123\",\"realm\":\"abc\"},\"session\":7}'',
         PDict [(''id'', PInt 1),
                (''error'', PDict [(''message'', PStr ''Component error: login challenge!'')]),
                (''params'', PDict [(''random'', PStr ''123''), (''realm'', PStr ''abc'')]),
                (''session'', PInt 7)]),
      (''{\"id\":1,\"error\":{\"message\":\"busy\"},\"session\":7}'',
         PDict [(''id'', PInt 1),
                (''error'', PDict [(''message'', PStr ''busy'')]),
                (''session'', PInt 7)]),
      (''{\"id\":2,\"params\":{\"keepAliveInterval\":30},\"session\":7}'',
         PDict [(''id'', PInt 2),
                (''params'', PDict [(''keepAliveInterval'', PInt 30)]),
                (''session'', PInt 7)]),
      (''{\"id\":2,\"params\":{},\"session\":7}'',
         PDict [(''id'', PInt 2), (''params'', PDict []), (''session'', PInt 7)]),
      (''{\"id\":2,\"error\":{\"message\":\"busy\"},\"params\":{\"keepAliveInterval\":30}}'',
         PDict [(''id'', PInt 2),
                (''error'', PDict [(''message'', PStr ''busy'')]),
                (''params'', PDict [(''keepAliveInterval'', PInt 30)])])]"

definition example_lib :: pylib where
  "example_lib =
     \<lparr>json_loads = example_loads,
      md5 = (\<lambda>s. of_nat (length s)),
      float_eq_int = (\<lambda>f n. False),
      float_sub_int = (\<lambda>f n. f),
      str_other = (\<lambda>v. ''?''),
      publish_raises = (\<lambda>topic v. False)\<rparr>"

text \<open>A client after \<^verbatim>\<open>connection_made\<close>, with the details of a device.\<close>

definition example_client :: client where
  "example_client =
     connection_made [(''deviceType'', PStr ''X''), (''serialNumber'', PStr ''Y'')] False
       (init_client (PStr ''admin'') (PStr ''secret'') (PStr ''Dahua''))"

definition challenge_chunk :: string where
  "challenge_chunk = CHR 0x00 #
     ''{\"id\":1,\"error\":{\"message\":\"Component error: login challenge!\"},\"params\":{\"random\":\"123\",\"realm\":\"abc\"},\"session\":7}''"

definition busy_chunk :: string where
  "busy_chunk = CHR 0x00 # ''{\"id\":1,\"error\":{\"message\":\"busy\"},\"session\":7}''"

definition login_ok_chunk :: string where
  "login_ok_chunk = CHR 0x00 # ''{\"id\":2,\"params\":{\"keepAliveInterval\":30},\"session\":7}''"

definition login_empty_chunk :: string where
  "login_empty_chunk = CHR 0x00 # ''{\"id\":2,\"params\":{},\"session\":7}''"

definition login_error_chunk :: string where
  "login_error_chunk = CHR 0x00 #
     ''{\"id\":2,\"error\":{\"message\":\"busy\"},\"params\":{\"keepAliveInterval\":30}}''"

text \<open>
  The example client after the challenge, the successful login and the loss of the
  connection.
\<close>

definition torn_down_client :: client where
  "torn_down_client =
     run example_lib [ChunkArrives challenge_chunk, ChunkArrives login_ok_chunk, ConnectionLost]
       example_client"

text \<open>A notification with one event that has a device type of its own.\<close>

definition alarm_params :: pyval where
  "alarm_params =
     PDict [(''eventList'',
        PList [PDict [(''Code'', PStr ''AlarmLocal''), (''deviceType'', PStr ''Mine'')]])]"

text \<open>Chunks for the decoder.\<close>

definition spec_chunk :: string where
  "spec_chunk = CHR 0x00 # ''{\"id\":1,\"foo\":\"a}b\"}'' @ CHR 0x00 # ''garbage'' @ [CHR 0x00]"

definition bare_chunk :: string where
  "bare_chunk = ''{\"id\":1}''"

definition bad_first_chunk :: string where
  "bad_first_chunk = ''{bad'' @ CHR 0x00 # ''{\"id\":1}''"

definition bad_middle_chunk :: string where
  "bad_middle_chunk =
     CHR 0x00 # ''{\"id\":1}'' @ CHR 0x00 # ''{bad'' @ CHR 0x00 # ''{\"id\":1,\"foo\":\"a}b\"}''"

section \<open>Properties\<close>

lemma digit_char_mem: "digit_char n \<in> set ''0123456789abcdef''"
  unfolding digit_char_def by (rule nth_mem) simp

lemma upper_hex_digits: "map upper_char ''0123456789abcdef'' = ''0123456789ABCDEF''"
  by (simp add: upper_char_def)

lemma upper_char_hex:
  assumes "c \<in> set ''0123456789abcdef''"
  shows "upper_char c \<in> set ''0123456789ABCDEF''"
proof -
  from assms have "upper_char c \<in> set (map upper_char ''0123456789abcdef'')"
    unfolding set_map by (rule imageI)
  then show ?thesis unfolding upper_hex_digits .
qed

lemma length_upper_hexdigest: "length (upper (hexdigest w)) = 32"
  by (simp add: upper_def hexdigest_def)

lemma set_upper_hexdigest: "set (upper (hexdigest w)) \<subseteq> set ''0123456789ABCDEF''"
proof
  fix c assume "c \<in> set (upper (hexdigest w))"
  then obtain d where "d \<in> set (hexdigest w)" and c: "c = upper_char d"
    unfolding upper_def by auto
  then obtain n where "d = digit_char n"
    unfolding hexdigest_def by auto
  with c upper_char_hex [OF digit_char_mem [of n]]
  show "c \<in> set ''0123456789ABCDEF''" by simp
qed

text \<open>
  C2. For all strings username, realm, nonce and password the hasher returns
  upperHex(MD5(username:nonce:h1)) with h1 = upperHex(MD5(username:realm:password)); the
  result has 32 characters, all of them upper-case hexadecimal digits. The function is
  total and its value depends on its arguments only.
\<close>

theorem credential_hasher_two_stage:
  "get_hashed_password lib (PStr n) (PStr r) (PStr u) (PStr p) =
     upper (hexdigest (md5 lib (u @ '':'' @ n @ '':'' @
       upper (hexdigest (md5 lib (u @ '':'' @ r @ '':'' @ p))))))
   \<and> length (get_hashed_password lib (PStr n) (PStr r) (PStr u) (PStr p)) = 32
   \<and> set (get_hashed_password lib (PStr n) (PStr r) (PStr u) (PStr p))
       \<subseteq> set ''0123456789ABCDEF''"
  by (simp add: get_hashed_password_def py_str_def Let_def length_upper_hexdigest
      set_upper_hexdigest del: set_simps)

lemma data_received_eq:
  "data_received lib data st =
     (case dispatch lib (fst (parse_response lib data))
             (st\<lparr>effects := effects st @ received_logs data (parse_response lib data)\<rparr>) of
        (Some e, st2) \<Rightarrow> emit (Log ERROR (FailedToHandleMessage e)) st2
      | (None, st2) \<Rightarrow> st2)"
  by (cases "parse_response lib data")
     (simp add: data_received_def received_logs_def emit_def split: option.split)

lemma list_all_received_logs: "list_all is_log (received_logs data r)"
  by (simp add: received_logs_def split: option.split)

lemma only_logged_append:
  "list_all is_log ls \<Longrightarrow> only_logged st (st\<lparr>effects := effects st @ ls\<rparr>)"
  by (simp add: only_logged_def)

lemma only_logged_received:
  assumes "dispatch lib (fst (parse_response lib data))
             (st\<lparr>effects := effects st @ received_logs data (parse_response lib data)\<rparr>)
           = (r, st\<lparr>effects := effects st @ received_logs data (parse_response lib data)\<rparr>)"
  shows "only_logged st (data_received lib data st)"
proof (cases r)
  case None
  with assms show ?thesis
    by (simp add: data_received_eq only_logged_append list_all_received_logs)
next
  case (Some e)
  have "list_all is_log (received_logs data (parse_response lib data)
          @ [Log ERROR (FailedToHandleMessage e)])"
    by (simp add: list_all_received_logs)
  from only_logged_append [OF this, of st] Some assms show ?thesis
    by (simp add: data_received_eq emit_def)
qed

lemma dispatch_challenge:
  assumes "py_eq_int lib (dict_get m ''id'') 1"
    and "dict_get m ''error'' = PDict e"
    and "dict_get e ''message'' = PStr ''Component error: login challenge!''"
    and "dict_get m ''params'' = PDict ps"
    and "transport st = Some False"
  shows "dispatch lib (PDict m) st =
    (None, st\<lparr>random := dict_get ps ''random'', realm := dict_get ps ''realm'',
          sessionId := dict_get m ''session'', request_id := request_id st + 1,
          effects := effects st @
            [Log DEBUG PrepareLogin,
             Write \<lparr>md_id = request_id st + 1, md_session = dict_get m ''session'',
                    md_request = Login (username st)
                      (PStr (get_hashed_password lib (dict_get ps ''random'')
                               (dict_get ps ''realm'') (username st) (password st)))\<rparr>]\<rparr>)"
  using assms
  by (simp add: dispatch_def py_get_def handle_login_error_def login_def send_def emit_def
      Let_def MessageData_def md_login_def)

lemma dispatch_no_challenge:
  assumes "py_eq_int lib (dict_get m ''id'') 1"
    and "\<not> is_challenge (dict_get m ''error'') \<or> \<not> is_dict (dict_get m ''params'')"
  shows "\<exists>r. dispatch lib (PDict m) st = (r, st)"
  using assms
  by (auto simp: dispatch_def py_get_def handle_login_error_def is_challenge_def is_dict_def
      split: pyval.splits)

lemma dispatch_login_ok:
  assumes "\<not> py_eq_int lib (dict_get m ''id'') 1" and "py_eq_int lib (dict_get m ''id'') 2"
    and "dict_get m ''params'' = PDict ps" and "dict_get ps ''keepAliveInterval'' = PInt k"
    and "transport st = Some False"
  shows "dispatch lib (PDict m) st =
    (None, st\<lparr>keep_alive_interval := PInt (k - 5), request_id := request_id st + 1,
          effects := effects st @
            [StartTimer (PInt (k - 5)), Log INFO AttachEventManager,
             Write \<lparr>md_id = request_id st + 1, md_session = sessionId st,
                    md_request = Attach\<rparr>]\<rparr>)"
  using assms
  by (simp add: dispatch_def py_get_def handle_login_def py_sub_int_def attach_event_manager_def
      send_def emit_def Let_def MessageData_def md_attach_def)

lemma dispatch_login_none:
  assumes "\<not> py_eq_int lib (dict_get m ''id'') 1" and "py_eq_int lib (dict_get m ''id'') 2"
    and "\<not> has_interval (dict_get m ''params'')"
  shows "\<exists>r. dispatch lib (PDict m) st = (r, st)"
  using assms
  by (auto simp: dispatch_def py_get_def handle_login_def py_sub_int_def has_interval_def
      is_number_def split: pyval.splits)

lemmas decode_simps = parse_response_def str_bytes_def bytes_quote_def escape_byte_def
  py_split_def nul_text_def digit_char_def py_rindex_def Let_def

lemma parse_challenge_chunk:
  "parse_response example_lib challenge_chunk =
     (PDict [(''id'', PInt 1),
             (''error'', PDict [(''message'', PStr ''Component error: login challenge!'')]),
             (''params'', PDict [(''random'', PStr ''123''), (''realm'', PStr ''abc'')]),
             (''session'', PInt 7)], None)"
  by (simp add: challenge_chunk_def decode_simps example_lib_def example_loads_def)

lemma parse_busy_chunk:
  "parse_response example_lib busy_chunk =
     (PDict [(''id'', PInt 1), (''error'', PDict [(''message'', PStr ''busy'')]),
             (''session'', PInt 7)], None)"
  by (simp add: busy_chunk_def decode_simps example_lib_def example_loads_def)

lemma parse_login_ok_chunk:
  "parse_response example_lib login_ok_chunk =
     (PDict [(''id'', PInt 2), (''params'', PDict [(''keepAliveInterval'', PInt 30)]),
             (''session'', PInt 7)], None)"
  by (simp add: login_ok_chunk_def decode_simps example_lib_def example_loads_def)

lemma parse_login_empty_chunk:
  "parse_response example_lib login_empty_chunk =
     (PDict [(''id'', PInt 2), (''params'', PDict []), (''session'', PInt 7)], None)"
  by (simp add: login_empty_chunk_def decode_simps example_lib_def example_loads_def)

lemma parse_login_error_chunk:
  "parse_response example_lib login_error_chunk =
     (PDict [(''id'', PInt 2), (''error'', PDict [(''message'', PStr ''busy'')]),
             (''params'', PDict [(''keepAliveInterval'', PInt 30)])], None)"
  by (simp add: login_error_chunk_def decode_simps example_lib_def example_loads_def)

lemma example_client_eq:
  "example_client =
     \<lparr>username = PStr ''admin'', password = PStr ''secret'',
      mqtt_broker_topic_prefix = PStr ''Dahua'',
      dahua_details = [(''deviceType'', PStr ''X''), (''serialNumber'', PStr ''Y'')],
      realm = PNone, random = PNone, request_id = 1, sessionId = PInt 0,
      keep_alive_interval = PInt 0, transport = Some False,
      effects =
        [Log DEBUG ConnectionEstablished, Log INFO ConnectingMqttBroker, MqttStart,
         Log DEBUG PreparePreLogin,
         Write \<lparr>md_id = 1, md_session = PInt 0,
                md_request = Login (PStr ''admin'') (PStr [])\<rparr>]\<rparr>"
  by (simp add: example_client_def connection_made_def init_client_def
      initialize_mqtt_client_def pre_login_def emit_def MessageData_def md_login_def Let_def)

text \<open>
  C1. A response decoded from a chunk with id 1: when its error is the login challenge
  (and its params are an object, the transport being open), the client stores
  params.random, params.realm and the session of the message, and writes one more
  login request, with the next id, the new session, and as password the hasher's
  output for the stored random and realm and the configured username and password. When
  the error is absent or is not the challenge, the client only logs: nothing is written
  and no attribute changes.
\<close>

theorem login_challenge_handshake:
  assumes "parse_response lib data = (PDict m, caught)"
    and "py_eq_int lib (dict_get m ''id'') 1"
  shows "(dict_get m ''error'' = PDict e
          \<and> dict_get e ''message'' = PStr ''Component error: login challenge!''
          \<and> dict_get m ''params'' = PDict ps \<and> transport st = Some False
          \<longrightarrow> data_received lib data st =
              st\<lparr>random := dict_get ps ''random'', realm := dict_get ps ''realm'',
                 sessionId := dict_get m ''session'', request_id := request_id st + 1,
                 effects := effects st @ received_logs data (PDict m, caught) @
                   [Log DEBUG PrepareLogin,
                    Write \<lparr>md_id = request_id st + 1, md_session = dict_get m ''session'',
                           md_request = Login (username st)
                             (PStr (get_hashed_password lib (dict_get ps ''random'')
                                (dict_get ps ''realm'') (username st) (password st)))\<rparr>]\<rparr>)
       \<and> (\<not> is_challenge (dict_get m ''error'')
          \<longrightarrow> only_logged st (data_received lib data st))"
proof (intro conjI impI)
  assume h: "dict_get m ''error'' = PDict e
      \<and> dict_get e ''message'' = PStr ''Component error: login challenge!''
      \<and> dict_get m ''params'' = PDict ps \<and> transport st = Some False"
  let ?st1 = "st\<lparr>effects := effects st @ received_logs data (PDict m, caught)\<rparr>"
  from h have "transport ?st1 = Some False" by simp
  from dispatch_challenge [OF assms(2) _ _ _ this, of e ps] h assms(1)
  show "data_received lib data st =
      st\<lparr>random := dict_get ps ''random'', realm := dict_get ps ''realm'',
         sessionId := dict_get m ''session'', request_id := request_id st + 1,
         effects := effects st @ received_logs data (PDict m, caught) @
           [Log DEBUG PrepareLogin,
            Write \<lparr>md_id = request_id st + 1, md_session = dict_get m ''session'',
                   md_request = Login (username st)
                     (PStr (get_hashed_password lib (dict_get ps ''random'')
                        (dict_get ps ''realm'') (username st) (password st)))\<rparr>]\<rparr>"
    by (simp add: data_received_eq)
next
  assume "\<not> is_challenge (dict_get m ''error'')"
  then have "\<not> is_challenge (dict_get m ''error'') \<or> \<not> is_dict (dict_get m ''params'')" ..
  from dispatch_no_challenge [OF assms(2) this]
  obtain r where "dispatch lib (PDict m)
      (st\<lparr>effects := effects st @ received_logs data (parse_response lib data)\<rparr>)
    = (r, st\<lparr>effects := effects st @ received_logs data (parse_response lib data)\<rparr>)"
    by blast
  with assms(1) show "only_logged st (data_received lib data st)"
    by (intro only_logged_received [where r = r]) simp
qed

theorem login_challenge_handshake_witness:
  "data_received example_lib challenge_chunk example_client =
     example_client\<lparr>random := PStr ''123'', realm := PStr ''abc'', sessionId := PInt 7,
       request_id := 2,
       effects := effects example_client @
         received_logs challenge_chunk (parse_response example_lib challenge_chunk) @
         [Log DEBUG PrepareLogin,
          Write \<lparr>md_id = 2, md_session = PInt 7,
                 md_request = Login (PStr ''admin'')
                   (PStr (get_hashed_password example_lib (PStr ''123'') (PStr ''abc'')
                      (PStr ''admin'') (PStr ''secret'')))\<rparr>]\<rparr>
   \<and> only_logged example_client (data_received example_lib busy_chunk example_client)"
proof
  have id1: "py_eq_int example_lib (dict_get [(''id'', PInt 1),
             (''error'', PDict [(''message'', PStr ''Component error: login challenge!'')]),
             (''params'', PDict [(''random'', PStr ''123''), (''realm'', PStr ''abc'')]),
             (''session'', PInt 7)] ''id'') 1"
    by (simp add: py_eq_int_def dict_get_def)
  from login_challenge_handshake [OF parse_challenge_chunk id1,
      of "[(''message'', PStr ''Component error: login challenge!'')]"
         "[(''random'', PStr ''123''), (''realm'', PStr ''abc'')]" example_client]
  show "data_received example_lib challenge_chunk example_client =
     example_client\<lparr>random := PStr ''123'', realm := PStr ''abc'', sessionId := PInt 7,
       request_id := 2,
       effects := effects example_client @
         received_logs challenge_chunk (parse_response example_lib challenge_chunk) @
         [Log DEBUG PrepareLogin,
          Write \<lparr>md_id = 2, md_session = PInt 7,
                 md_request = Login (PStr ''admin'')
                   (PStr (get_hashed_password example_lib (PStr ''123'') (PStr ''abc'')
                      (PStr ''admin'') (PStr ''secret'')))\<rparr>]\<rparr>"
    by (simp add: dict_get_def parse_challenge_chunk example_client_eq)
next
  have id1: "py_eq_int example_lib (dict_get [(''id'', PInt 1),
      (''error'', PDict [(''message'', PStr ''busy'')]), (''session'', PInt 7)] ''id'') 1"
    by (simp add: py_eq_int_def dict_get_def)
  from login_challenge_handshake [OF parse_busy_chunk id1, of _ _ example_client]
  show "only_logged example_client (data_received example_lib busy_chunk example_client)"
    by (simp add: dict_get_def is_challenge_def)
qed

text \<open>
  C4. A response decoded from a chunk with id 2 whose params are an object: when they hold
  an integer keepAliveInterval k (the transport being open), the client stores k - 5 as
  its interval, starts the keep-alive timer with k - 5 seconds, and after that writes the
  attach request; for k = 30 the timer is started with 25. When keepAliveInterval is
  absent (or null), no timer is started and nothing is written.
\<close>

theorem keep_alive_scheduling:
  assumes "parse_response lib data = (PDict m, caught)"
    and "\<not> py_eq_int lib (dict_get m ''id'') 1"
    and "py_eq_int lib (dict_get m ''id'') 2"
    and "dict_get m ''params'' = PDict ps"
  shows "(dict_get ps ''keepAliveInterval'' = PInt k \<and> transport st = Some False
          \<longrightarrow> data_received lib data st =
              st\<lparr>keep_alive_interval := PInt (k - 5), request_id := request_id st + 1,
                 effects := effects st @ received_logs data (PDict m, caught) @
                   [StartTimer (PInt (k - 5)), Log INFO AttachEventManager,
                    Write \<lparr>md_id = request_id st + 1, md_session = sessionId st,
                           md_request = Attach\<rparr>]\<rparr>)
       \<and> (dict_get ps ''keepAliveInterval'' = PNone
          \<longrightarrow> data_received lib data st =
              st\<lparr>effects := effects st @ received_logs data (PDict m, caught)\<rparr>)"
proof (intro conjI impI)
  assume h: "dict_get ps ''keepAliveInterval'' = PInt k \<and> transport st = Some False"
  let ?st1 = "st\<lparr>effects := effects st @ received_logs data (PDict m, caught)\<rparr>"
  from h have "transport ?st1 = Some False" by simp
  from dispatch_login_ok [OF assms(2,3,4) _ this, of k] h assms(1)
  show "data_received lib data st =
      st\<lparr>keep_alive_interval := PInt (k - 5), request_id := request_id st + 1,
         effects := effects st @ received_logs data (PDict m, caught) @
           [StartTimer (PInt (k - 5)), Log INFO AttachEventManager,
            Write \<lparr>md_id = request_id st + 1, md_session = sessionId st,
                   md_request = Attach\<rparr>]\<rparr>"
    by (simp add: data_received_eq)
next
  assume "dict_get ps ''keepAliveInterval'' = PNone"
  with assms show "data_received lib data st =
      st\<lparr>effects := effects st @ received_logs data (PDict m, caught)\<rparr>"
    by (simp add: data_received_eq dispatch_def py_get_def handle_login_def)
qed

theorem keep_alive_scheduling_witness:
  "data_received example_lib login_ok_chunk example_client =
     example_client\<lparr>keep_alive_interval := PInt 25, request_id := 2,
       effects := effects example_client @
         received_logs login_ok_chunk (parse_response example_lib login_ok_chunk) @
         [StartTimer (PInt 25), Log INFO AttachEventManager,
          Write \<lparr>md_id = 2, md_session = PInt 0, md_request = Attach\<rparr>]\<rparr>
   \<and> data_received example_lib login_empty_chunk example_client =
     example_client\<lparr>effects := effects example_client @
         received_logs login_empty_chunk (parse_response example_lib login_empty_chunk)\<rparr>"
proof
  have ids: "\<not> py_eq_int example_lib (dict_get [(''id'', PInt 2),
        (''params'', PDict [(''keepAliveInterval'', PInt 30)]), (''session'', PInt 7)] ''id'') 1"
    "py_eq_int example_lib (dict_get [(''id'', PInt 2),
        (''params'', PDict [(''keepAliveInterval'', PInt 30)]), (''session'', PInt 7)] ''id'') 2"
    "dict_get [(''id'', PInt 2),
        (''params'', PDict [(''keepAliveInterval'', PInt 30)]), (''session'', PInt 7)] ''params''
      = PDict [(''keepAliveInterval'', PInt 30)]"
    by (simp_all add: py_eq_int_def dict_get_def)
  from keep_alive_scheduling [OF parse_login_ok_chunk ids, of 30 example_client]
  show "data_received example_lib login_ok_chunk example_client =
     example_client\<lparr>keep_alive_interval := PInt 25, request_id := 2,
       effects := effects example_client @
         received_logs login_ok_chunk (parse_response example_lib login_ok_chunk) @
         [StartTimer (PInt 25), Log INFO AttachEventManager,
          Write \<lparr>md_id = 2, md_session = PInt 0, md_request = Attach\<rparr>]\<rparr>"
    by (simp add: dict_get_def parse_login_ok_chunk example_client_eq)
next
  have ids: "\<not> py_eq_int example_lib (dict_get [(''id'', PInt 2),
        (''params'', PDict []), (''session'', PInt 7)] ''id'') 1"
    "py_eq_int example_lib (dict_get [(''id'', PInt 2),
        (''params'', PDict []), (''session'', PInt 7)] ''id'') 2"
    "dict_get [(''id'', PInt 2), (''params'', PDict []), (''session'', PInt 7)] ''params''
      = PDict []"
    by (simp_all add: py_eq_int_def dict_get_def)
  from keep_alive_scheduling [OF parse_login_empty_chunk ids, of _ example_client]
  show "data_received example_lib login_empty_chunk example_client =
     example_client\<lparr>effects := effects example_client @
         received_logs login_empty_chunk (parse_response example_lib login_empty_chunk)\<rparr>"
    by (simp add: dict_get_def parse_login_empty_chunk)
qed

lemma received_is_logged:
  assumes "dispatch lib (fst (parse_response lib data))
             (st\<lparr>effects := effects st @ received_logs data (parse_response lib data)\<rparr>)
           = (r, st\<lparr>effects := effects st @ received_logs data (parse_response lib data)\<rparr>)"
  shows "Log DEBUG (DataReceived (fst (parse_response lib data)))
           \<in> set (effects (data_received lib data st))"
  using assms
  by (cases r) (simp_all add: data_received_eq received_logs_def emit_def)

text \<open>
  C9, as stated, fails: a response with id 2 that carries an error other than the login
  challenge, and a keepAliveInterval, is handled as a successful login.
\<close>

theorem login_response_error_counterexample:
  "fst (parse_response example_lib login_error_chunk) =
     PDict [(''id'', PInt 2), (''error'', PDict [(''message'', PStr ''busy'')]),
            (''params'', PDict [(''keepAliveInterval'', PInt 30)])]
   \<and> keep_alive_interval example_client = PInt 0
   \<and> keep_alive_interval (data_received example_lib login_error_chunk example_client) = PInt 25
   \<and> started_timers (effects (data_received example_lib login_error_chunk example_client))
       = [PInt 25]
   \<and> written (effects (data_received example_lib login_error_chunk example_client)) =
       [\<lparr>md_id = 1, md_session = PInt 0, md_request = Login (PStr ''admin'') (PStr [])\<rparr>,
        \<lparr>md_id = 2, md_session = PInt 0, md_request = Attach\<rparr>]"
  by (simp add: data_received_eq parse_login_error_chunk example_client_eq received_logs_def
      dispatch_def py_get_def dict_get_def py_eq_int_def handle_login_def py_sub_int_def
      attach_event_manager_def send_def emit_def Let_def MessageData_def md_attach_def)

text \<open>
  C9, amended. A response with id 1 whose error is absent or is not the login challenge, or
  whose params are not an object, and a response with id 2 whose params hold no number as
  keepAliveInterval (whether or not it carries an error): the message is logged, at debug
  level, and nothing else happens; no request is written and no attribute of the session
  changes.
\<close>

theorem no_progress_without_expected_fields:
  assumes "parse_response lib data = (PDict m, caught)"
  shows "(py_eq_int lib (dict_get m ''id'') 1
          \<and> (\<not> is_challenge (dict_get m ''error'') \<or> \<not> is_dict (dict_get m ''params''))
          \<longrightarrow> only_logged st (data_received lib data st)
              \<and> Log DEBUG (DataReceived (PDict m)) \<in> set (effects (data_received lib data st)))
       \<and> (\<not> py_eq_int lib (dict_get m ''id'') 1 \<and> py_eq_int lib (dict_get m ''id'') 2
          \<and> \<not> has_interval (dict_get m ''params'')
          \<longrightarrow> only_logged st (data_received lib data st)
              \<and> Log DEBUG (DataReceived (PDict m)) \<in> set (effects (data_received lib data st)))"
proof -
  let ?st1 = "st\<lparr>effects := effects st @ received_logs data (parse_response lib data)\<rparr>"
  have stay: "only_logged st (data_received lib data st)
      \<and> Log DEBUG (DataReceived (PDict m)) \<in> set (effects (data_received lib data st))"
    if "\<exists>r. dispatch lib (PDict m) ?st1 = (r, ?st1)"
  proof -
    from that obtain r where "dispatch lib (PDict m) ?st1 = (r, ?st1)" ..
    with assms have d: "dispatch lib (fst (parse_response lib data)) ?st1 = (r, ?st1)"
      by simp
    from only_logged_received [OF d] received_is_logged [OF d] assms show ?thesis
      by simp
  qed
  show ?thesis
  proof (intro conjI impI)
    assume h: "py_eq_int lib (dict_get m ''id'') 1
      \<and> (\<not> is_challenge (dict_get m ''error'') \<or> \<not> is_dict (dict_get m ''params''))"
    then have "\<exists>r. dispatch lib (PDict m) ?st1 = (r, ?st1)"
      by (intro dispatch_no_challenge) simp_all
    from stay [OF this]
    show "only_logged st (data_received lib data st)"
      and "Log DEBUG (DataReceived (PDict m)) \<in> set (effects (data_received lib data st))"
      by simp_all
  next
    assume h: "\<not> py_eq_int lib (dict_get m ''id'') 1 \<and> py_eq_int lib (dict_get m ''id'') 2
      \<and> \<not> has_interval (dict_get m ''params'')"
    then have "\<exists>r. dispatch lib (PDict m) ?st1 = (r, ?st1)"
      by (intro dispatch_login_none) simp_all
    from stay [OF this]
    show "only_logged st (data_received lib data st)"
      and "Log DEBUG (DataReceived (PDict m)) \<in> set (effects (data_received lib data st))"
      by simp_all
  qed
qed

theorem no_progress_without_expected_fields_witness:
  "only_logged example_client (data_received example_lib busy_chunk example_client)
   \<and> only_logged example_client (data_received example_lib login_empty_chunk example_client)"
proof
  from no_progress_without_expected_fields [OF parse_busy_chunk, of example_client]
  show "only_logged example_client (data_received example_lib busy_chunk example_client)"
    by (simp add: dict_get_def py_eq_int_def is_challenge_def)
next
  from no_progress_without_expected_fields [OF parse_login_empty_chunk, of example_client]
  show "only_logged example_client (data_received example_lib login_empty_chunk example_client)"
    by (simp add: dict_get_def py_eq_int_def has_interval_def is_number_def)
qed

lemma written_append: "written (xs @ ys) = written xs @ written ys"
  by (induction xs rule: written.induct) simp_all

lemma started_timers_append: "started_timers (xs @ ys) = started_timers xs @ started_timers ys"
  by (induction xs rule: started_timers.induct) simp_all

lemma written_ids_append: "written_ids (xs @ ys) = written_ids xs @ written_ids ys"
  by (induction xs rule: written_ids.induct) simp_all

lemma keep_alive_closing:
  assumes "transport st = Some True"
  shows "keep_alive st =
    (None, st\<lparr>request_id := request_id st + 1,
          effects := effects st @ [Log DEBUG KeepAliveText, StartTimer (keep_alive_interval st)]\<rparr>)"
  using assms by (simp add: keep_alive_def send_def emit_def Let_def)

lemma torn_down_client_eq:
  "torn_down_client =
     example_client\<lparr>random := PStr ''123'', realm := PStr ''abc'', sessionId := PInt 7,
       request_id := 3, keep_alive_interval := PInt 25, transport := Some True,
       effects := effects example_client @
         received_logs challenge_chunk (parse_response example_lib challenge_chunk) @
         [Log DEBUG PrepareLogin,
          Write \<lparr>md_id = 2, md_session = PInt 7,
                 md_request = Login (PStr ''admin'')
                   (PStr (get_hashed_password example_lib (PStr ''123'') (PStr ''abc'')
                      (PStr ''admin'') (PStr ''secret'')))\<rparr>] @
         received_logs login_ok_chunk (parse_response example_lib login_ok_chunk) @
         [StartTimer (PInt 25), Log INFO AttachEventManager,
          Write \<lparr>md_id = 3, md_session = PInt 7, md_request = Attach\<rparr>,
          Log ERROR ServerClosedConnection, LoopStop]\<rparr>"
  by (simp add: torn_down_client_def data_received_eq parse_challenge_chunk parse_login_ok_chunk
      example_client_eq dispatch_def py_get_def dict_get_def py_eq_int_def
      handle_login_error_def login_def handle_login_def py_sub_int_def
      attach_event_manager_def send_def emit_def Let_def MessageData_def md_attach_def
      md_login_def close_transport_def connection_lost_def)

lemma timers_after_closing:
  assumes "transport st = Some True"
  shows "transport (run lib (replicate n TimerFires) st) = Some True
    \<and> keep_alive_interval (run lib (replicate n TimerFires) st) = keep_alive_interval st
    \<and> request_id (run lib (replicate n TimerFires) st) = request_id st + int n
    \<and> written (effects (run lib (replicate n TimerFires) st)) = written (effects st)
    \<and> started_timers (effects (run lib (replicate n TimerFires) st))
        = started_timers (effects st) @ replicate n (keep_alive_interval st)"
  using assms
proof (induction n arbitrary: st)
  case 0
  then show ?case by simp
next
  case (Suc n)
  let ?st1 = "snd (keep_alive st)"
  from Suc.prems have st1: "?st1 = st\<lparr>request_id := request_id st + 1,
      effects := effects st @ [Log DEBUG KeepAliveText, StartTimer (keep_alive_interval st)]\<rparr>"
    by (simp add: keep_alive_closing)
  with Suc.prems have "transport ?st1 = Some True" by simp
  from Suc.IH [OF this] st1 show ?case
    by (simp add: written_append started_timers_append replicate_app_Cons_same)
qed

text \<open>
  C8, as stated, fails: on the client whose connection was lost, a firing keep-alive timer
  starts the next timer.
\<close>

theorem keep_alive_after_teardown_counterexample:
  "transport torn_down_client = Some True
   \<and> LoopStop \<in> set (effects torn_down_client)
   \<and> started_timers (effects (step example_lib TimerFires torn_down_client))
       = started_timers (effects torn_down_client) @ [PInt 25]
   \<and> request_id (step example_lib TimerFires torn_down_client) = request_id torn_down_client + 1"
  by (simp add: torn_down_client_eq keep_alive_closing started_timers_append)

text \<open>
  C8, amended. Once the transport of a connection is closing, a keep-alive task of that
  connection that fires writes nothing to the transport; it is not cancelled: each firing
  counts the request counter up and starts the next timer with the same interval, for as
  long as timers fire.
\<close>

theorem keep_alive_after_teardown:
  assumes "transport st = Some True"
  shows "keep_alive st =
      (None, st\<lparr>request_id := request_id st + 1,
         effects := effects st @ [Log DEBUG KeepAliveText, StartTimer (keep_alive_interval st)]\<rparr>)
    \<and> written (effects (run lib (replicate n TimerFires) st)) = written (effects st)
    \<and> started_timers (effects (run lib (replicate n TimerFires) st))
        = started_timers (effects st) @ replicate n (keep_alive_interval st)
    \<and> request_id (run lib (replicate n TimerFires) st) = request_id st + int n"
  using keep_alive_closing [OF assms] timers_after_closing [OF assms, of lib n] by simp

theorem keep_alive_after_teardown_witness:
  "transport torn_down_client = Some True
   \<and> written (effects (run example_lib (replicate 3 TimerFires) torn_down_client))
       = written (effects torn_down_client)
   \<and> started_timers (effects (run example_lib (replicate 3 TimerFires) torn_down_client))
       = started_timers (effects torn_down_client) @ [PInt 25, PInt 25, PInt 25]"
proof -
  have c: "transport torn_down_client = Some True"
    by (simp add: torn_down_client_eq)
  have k: "keep_alive_interval torn_down_client = PInt 25"
    by (simp add: torn_down_client_eq)
  have r: "replicate 3 (PInt 25) = [PInt 25, PInt 25, PInt 25]"
    by (simp add: numeral_3_eq_3)
  from keep_alive_after_teardown [OF c, of example_lib 3] c k r show ?thesis
    by simp
qed

lemma sleeps_append: "sleeps (xs @ ys) = sleeps xs @ sleeps ys"
  by (induction xs rule: sleeps.induct) simp_all

text \<open>
  C7. The retry loop has no bound on the number of attempts: after any number of attempts
  that ended with the connection closed or with an exception, the manager is still
  looping, and it has slept once after each attempt, 5 seconds after a connection that
  was made and then closed, 30 seconds after a failure.
\<close>

theorem connection_manager_backoff:
  assumes "Interrupted \<notin> set outcomes"
  shows "snd (initialize outcomes)
    \<and> sleeps (fst (initialize outcomes)) = map (\<lambda>a. if a = Disconnected then 5 else 30) outcomes"
  using assms
proof (induction outcomes)
  case Nil
  then show ?case by simp
next
  case (Cons a rest)
  then have ih: "snd (initialize rest)"
    "sleeps (fst (initialize rest)) = map (\<lambda>a. if a = Disconnected then 5 else 30) rest"
    by simp_all
  from Cons.prems have "a = Disconnected \<or> a = Failed"
    by (cases a) simp_all
  then show ?case
  proof
    assume "a = Disconnected"
    with ih show ?thesis
      by (cases "initialize rest") (simp add: sleeps_append)
  next
    assume "a = Failed"
    with ih show ?thesis
      by (cases "initialize rest") (simp add: sleeps_append)
  qed
qed

theorem connection_manager_backoff_witness:
  "Interrupted \<notin> set [Disconnected, Failed, Failed, Disconnected]
   \<and> snd (initialize [Disconnected, Failed, Failed, Disconnected])
   \<and> sleeps (fst (initialize [Disconnected, Failed, Failed, Disconnected])) = [5, 30, 30, 5]"
proof -
  have h: "Interrupted \<notin> set [Disconnected, Failed, Failed, Disconnected]" by simp
  from connection_manager_backoff [OF h] h show ?thesis by simp
qed

lemma ids_emit:
  "\<not> (\<exists>m. e = Write m) \<Longrightarrow> ids_consecutive (emit e st) = ids_consecutive st"
  by (cases e) (simp_all add: ids_consecutive_def emit_def written_ids_append)

lemma ids_send: "ids_consecutive st \<Longrightarrow> ids_consecutive (snd (send m st))"
  by (auto simp: ids_consecutive_def send_def emit_def written_ids_append Let_def
      split: option.splits)

lemma ids_login: "ids_consecutive st \<Longrightarrow> ids_consecutive (snd (login lib st))"
  by (simp add: login_def Let_def ids_send ids_emit)

lemma ids_attach: "ids_consecutive st \<Longrightarrow> ids_consecutive (snd (attach_event_manager st))"
  by (simp add: attach_event_manager_def Let_def ids_send ids_emit)

lemma ids_keep_alive: "ids_consecutive st \<Longrightarrow> ids_consecutive (snd (keep_alive st))"
proof -
  assume a: "ids_consecutive st"
  let ?m = "md_keep_alive (keep_alive_interval st)
      (MessageData (request_id st) (sessionId st))"
  from a have "ids_consecutive (emit (Log DEBUG KeepAliveText) st)" by (simp add: ids_emit)
  from ids_send [OF this, of ?m] show ?thesis
    by (cases "send ?m (emit (Log DEBUG KeepAliveText) st)")
       (auto simp: keep_alive_def Let_def emit_def ids_emit [unfolded emit_def]
          split: option.splits)
qed

lemma ids_fields:
  "ids_consecutive (st\<lparr>random := v\<rparr>) = ids_consecutive st"
  "ids_consecutive (st\<lparr>realm := v\<rparr>) = ids_consecutive st"
  "ids_consecutive (st\<lparr>sessionId := v\<rparr>) = ids_consecutive st"
  "ids_consecutive (st\<lparr>keep_alive_interval := v\<rparr>) = ids_consecutive st"
  by (simp_all add: ids_consecutive_def)

lemma ids_handle_login_error:
  "ids_consecutive st \<Longrightarrow> ids_consecutive (snd (handle_login_error lib error message params st))"
  by (simp add: handle_login_error_def Let_def ids_fields ids_login
      split: sum.splits)

lemma ids_handle_login:
  "ids_consecutive st \<Longrightarrow> ids_consecutive (snd (handle_login lib params st))"
  by (simp add: handle_login_def Let_def ids_fields ids_attach ids_emit
      split: sum.splits)

lemma ids_publish_event:
  "ids_consecutive st \<Longrightarrow> ids_consecutive (snd (publish_event lib message st))"
  by (simp add: publish_event_def Let_def ids_emit split: pyval.splits)

lemma ids_publish_events:
  "ids_consecutive st \<Longrightarrow> ids_consecutive (snd (publish_events lib messages st))"
proof (induction messages arbitrary: st)
  case Nil
  then show ?case by simp
next
  case (Cons message rest)
  from ids_publish_event [OF Cons.prems, of lib message]
  show ?case
    by (cases "publish_event lib message st")
       (auto split: option.splits intro: Cons.IH)
qed

lemma ids_handle_notify:
  "ids_consecutive st \<Longrightarrow> ids_consecutive (handle_notify_event_stream lib params st)"
proof -
  assume a: "ids_consecutive st"
  have "ids_consecutive (snd (case py_get params ''eventList'' of
              Inl e \<Rightarrow> (Some e, st)
            | Inr event_list \<Rightarrow>
                (case py_iter event_list of
                   Inl e \<Rightarrow> (Some e, st)
                 | Inr messages \<Rightarrow> publish_events lib messages st)))"
    using a by (simp add: ids_publish_events split: sum.splits)
  then show ?thesis
    unfolding handle_notify_event_stream_def
    by (auto simp: ids_emit split: prod.splits option.splits)
qed

lemma ids_dispatch:
  "ids_consecutive st \<Longrightarrow> ids_consecutive (snd (dispatch lib message st))"
  by (simp add: dispatch_def ids_handle_login_error ids_handle_login ids_handle_notify
      split: sum.splits)

lemma ids_data_received:
  "ids_consecutive st \<Longrightarrow> ids_consecutive (data_received lib data st)"
proof -
  assume a: "ids_consecutive st"
  let ?st1 = "st\<lparr>effects := effects st @ received_logs data (parse_response lib data)\<rparr>"
  have "?st1 = emit (Log DEBUG (DataReceived (fst (parse_response lib data))))
      (case snd (parse_response lib data) of
         None \<Rightarrow> st
       | Some e \<Rightarrow> emit (Log ERROR (FailedToReadData data e)) st)"
    by (simp add: received_logs_def emit_def split: option.splits)
  with a have "ids_consecutive ?st1"
    by (simp add: ids_emit split: option.splits)
  from ids_dispatch [OF this, of lib "fst (parse_response lib data)"]
  show ?thesis
    unfolding data_received_eq
    by (auto simp: ids_emit split: prod.splits option.splits)
qed

lemma ids_close_transport:
  "ids_consecutive st \<Longrightarrow> ids_consecutive (close_transport st)"
  by (auto simp: ids_consecutive_def close_transport_def split: option.splits)

lemma ids_step: "ids_consecutive st \<Longrightarrow> ids_consecutive (step lib ev st)"
  by (cases ev)
     (simp_all add: ids_data_received ids_keep_alive ids_close_transport eof_received_def
        connection_lost_def ids_emit)

lemma ids_run: "ids_consecutive st \<Longrightarrow> ids_consecutive (run lib evs st)"
  by (induction evs arbitrary: st) (simp_all add: ids_step)

lemma ids_connection_made:
  "ids_consecutive (connection_made details False (init_client u p t))"
  by (simp add: connection_made_def init_client_def initialize_mqtt_client_def pre_login_def
      emit_def MessageData_def md_login_def Let_def ids_consecutive_def)

text \<open>
  C6. On one connection the request counter starts at 1 and the pre-login request is
  written with id 1; every later request goes through \<^verbatim>\<open>send\<close>, which counts the counter
  up before it writes. So whatever happens on the connection afterwards (chunks, timers,
  the transport closing), the ids of the requests written are 1, 2, 3, ... without a gap,
  and while the transport is open the counter is the id written last.
\<close>

theorem request_ids_consecutive:
  "request_id (init_client u p t) = 1
   \<and> written (effects (connection_made details False (init_client u p t)))
       = [\<lparr>md_id = 1, md_session = PInt 0, md_request = Login u (PStr [])\<rparr>]
   \<and> request_id (snd (send m st)) = request_id st + 1
   \<and> (transport st = Some False \<longrightarrow>
        written_ids (effects (snd (send m st))) = written_ids (effects st) @ [request_id st + 1])
   \<and> written_ids (effects (run lib evs (connection_made details False (init_client u p t))))
       = map int [1..<Suc (length (written_ids
           (effects (run lib evs (connection_made details False (init_client u p t))))))]
   \<and> (transport (run lib evs (connection_made details False (init_client u p t))) = Some False
      \<longrightarrow> request_id (run lib evs (connection_made details False (init_client u p t)))
          = int (length (written_ids
              (effects (run lib evs (connection_made details False (init_client u p t)))))))"
proof -
  have a: "request_id (init_client u p t) = 1"
    by (simp add: init_client_def)
  have b: "written (effects (connection_made details False (init_client u p t)))
      = [\<lparr>md_id = 1, md_session = PInt 0, md_request = Login u (PStr [])\<rparr>]"
    by (simp add: connection_made_def init_client_def initialize_mqtt_client_def pre_login_def
        emit_def MessageData_def md_login_def Let_def)
  have c: "request_id (snd (send m st)) = request_id st + 1"
    by (simp add: send_def Let_def emit_def split: option.splits)
  have d: "transport st = Some False \<longrightarrow>
      written_ids (effects (snd (send m st))) = written_ids (effects st) @ [request_id st + 1]"
    by (simp add: send_def Let_def emit_def written_ids_append)
  have "ids_consecutive (run lib evs (connection_made details False (init_client u p t)))"
    by (rule ids_run) (rule ids_connection_made)
  then have e: "written_ids (effects (run lib evs (connection_made details False (init_client u p t))))
       = map int [1..<Suc (length (written_ids
           (effects (run lib evs (connection_made details False (init_client u p t))))))]"
    and f: "transport (run lib evs (connection_made details False (init_client u p t))) = Some False
      \<longrightarrow> request_id (run lib evs (connection_made details False (init_client u p t)))
          = int (length (written_ids
              (effects (run lib evs (connection_made details False (init_client u p t))))))"
    unfolding ids_consecutive_def by blast+
  from a b c d e f show ?thesis by blast
qed

theorem request_ids_consecutive_witness:
  "written_ids (effects (run example_lib
      [ChunkArrives challenge_chunk, ChunkArrives login_ok_chunk, TimerFires, TimerFires]
      (connection_made [(''deviceType'', PStr ''X''), (''serialNumber'', PStr ''Y'')] False
         (init_client (PStr ''admin'') (PStr ''secret'') (PStr ''Dahua'')))))
   = [1, 2, 3, 4, 5]"
proof -
  let ?st = "run example_lib
      [ChunkArrives challenge_chunk, ChunkArrives login_ok_chunk, TimerFires, TimerFires]
      (connection_made [(''deviceType'', PStr ''X''), (''serialNumber'', PStr ''Y'')] False
         (init_client (PStr ''admin'') (PStr ''secret'') (PStr ''Dahua'')))"
  have open_still: "transport ?st = Some False" and counter: "request_id ?st = 5"
    by (simp_all add: example_client_def [symmetric] data_received_eq parse_challenge_chunk
        parse_login_ok_chunk example_client_eq dispatch_def py_get_def dict_get_def
        py_eq_int_def handle_login_error_def login_def handle_login_def py_sub_int_def
        attach_event_manager_def keep_alive_def send_def emit_def Let_def)
  from request_ids_consecutive [of "PStr ''admin''" "PStr ''secret''" "PStr ''Dahua''"
      "[(''deviceType'', PStr ''X''), (''serialNumber'', PStr ''Y'')]" _ _ example_lib
      "[ChunkArrives challenge_chunk, ChunkArrives login_ok_chunk, TimerFires, TimerFires]"]
  have eq: "written_ids (effects ?st) = map int [1..<Suc (length (written_ids (effects ?st)))]"
    and "request_id ?st = int (length (written_ids (effects ?st)))"
    using open_still by blast+
  with counter have len: "length (written_ids (effects ?st)) = 5"
    by simp
  have l: "map int [1..<Suc 5] = [1, 2, 3, 4, 5]"
    by code_simp
  from eq [unfolded len] show ?thesis
    unfolding l .
qed

lemma map_of_dict_set: "map_of (dict_set k v kvs) = (map_of kvs)(k \<mapsto> v)"
  by (induction kvs) (auto simp: fun_eq_iff)

lemma map_of_merge_details:
  "map_of (merge_details ks details kvs) k =
     (if k \<in> set ks \<and> k \<in> set DAHUA_ALLOWED_DETAILS then Some (dict_get details k)
      else map_of kvs k)"
  by (induction ks arbitrary: kvs) (auto simp: map_of_dict_set)

lemma map_of_enriched:
  "map_of (enriched details kvs) k =
     (if k \<in> fst ` set details \<and> k \<in> set DAHUA_ALLOWED_DETAILS then map_of details k
      else map_of kvs k)"
proof (cases "k \<in> fst ` set details")
  case True
  then obtain v where "map_of details k = Some v"
    by (metis domD dom_map_of_conv_image_fst)
  with True show ?thesis
    by (simp add: enriched_def map_of_merge_details dict_get_def)
next
  case False
  then show ?thesis
    by (simp add: enriched_def map_of_merge_details)
qed

lemma publish_event_ok:
  assumes "\<not> publish_raises lib (event_topic lib (mqtt_broker_topic_prefix st) kvs)
             (PDict (enriched (dahua_details st) kvs))"
  shows "publish_event lib (PDict kvs) st =
    (None, st\<lparr>effects := effects st @
       [Log DEBUG (PublishingMqttMessage (event_topic lib (mqtt_broker_topic_prefix st) kvs)
          (PDict (enriched (dahua_details st) kvs))),
        Publish (event_topic lib (mqtt_broker_topic_prefix st) kvs)
          (PDict (enriched (dahua_details st) kvs))]\<rparr>)"
  using assms
  by (simp add: publish_event_def Let_def emit_def event_topic_def enriched_def)

lemma publish_events_ok:
  assumes "\<forall>kvs \<in> set evs.
      \<not> publish_raises lib (event_topic lib (mqtt_broker_topic_prefix st) kvs)
          (PDict (enriched (dahua_details st) kvs))"
  shows "publish_events lib (map PDict evs) st =
    (None, st\<lparr>effects := effects st @ concat (map (\<lambda>kvs.
       [Log DEBUG (PublishingMqttMessage (event_topic lib (mqtt_broker_topic_prefix st) kvs)
          (PDict (enriched (dahua_details st) kvs))),
        Publish (event_topic lib (mqtt_broker_topic_prefix st) kvs)
          (PDict (enriched (dahua_details st) kvs))]) evs)\<rparr>)"
  using assms
proof (induction evs arbitrary: st)
  case Nil
  then show ?case by simp
next
  case (Cons kvs rest)
  let ?st1 = "st\<lparr>effects := effects st @
       [Log DEBUG (PublishingMqttMessage (event_topic lib (mqtt_broker_topic_prefix st) kvs)
          (PDict (enriched (dahua_details st) kvs))),
        Publish (event_topic lib (mqtt_broker_topic_prefix st) kvs)
          (PDict (enriched (dahua_details st) kvs))]\<rparr>"
  from Cons.prems have one: "publish_event lib (PDict kvs) st = (None, ?st1)"
    by (intro publish_event_ok) simp
  from Cons.prems have "\<forall>kvs \<in> set rest.
      \<not> publish_raises lib (event_topic lib (mqtt_broker_topic_prefix ?st1) kvs)
          (PDict (enriched (dahua_details ?st1) kvs))"
    by simp
  from Cons.IH [OF this] one show ?case
    by simp
qed

lemma published_append: "published (xs @ ys) = published xs @ published ys"
  by (induction xs rule: published.induct) simp_all

text \<open>
  C5, as stated, fails: a field of the event that is also an allow-listed field of the
  device details is overwritten. The event has the device type Mine; it is published with
  the device type X of the details.
\<close>

theorem event_field_overwritten_counterexample:
  "dahua_details example_client = [(''deviceType'', PStr ''X''), (''serialNumber'', PStr ''Y'')]
   \<and> published (effects (handle_notify_event_stream example_lib alarm_params example_client)) =
       [(''Dahua/AlarmLocal/Event'',
         PDict [(''Code'', PStr ''AlarmLocal''), (''deviceType'', PStr ''X''),
                (''serialNumber'', PStr ''Y'')])]"
  by (simp add: example_client_eq alarm_params_def handle_notify_event_stream_def py_get_def
      dict_get_def py_iter_def publish_event_def DAHUA_ALLOWED_DETAILS_def py_str_def
      example_lib_def emit_def Let_def)

text \<open>
  C5, amended. For every event object of the eventList of a notification, in order, the
  dispatcher sets on the event the allow-listed fields deviceType and serialNumber that
  the device details hold, replacing a field of that name that the event has, leaves
  every other field as it is, and publishes the event (serialised by json.dumps with
  indent 4) to the topic prefix/Code/Event. (The events are objects and no call of publish
  raises.)
\<close>

theorem event_dispatch_enrichment:
  assumes "dict_get ps ''eventList'' = PList (map PDict evs)"
    and "\<forall>kvs \<in> set evs.
      \<not> publish_raises lib (event_topic lib (mqtt_broker_topic_prefix st) kvs)
          (PDict (enriched (dahua_details st) kvs))"
  shows "handle_notify_event_stream lib (PDict ps) st =
      st\<lparr>effects := effects st @ concat (map (\<lambda>kvs.
         [Log DEBUG (PublishingMqttMessage (event_topic lib (mqtt_broker_topic_prefix st) kvs)
            (PDict (enriched (dahua_details st) kvs))),
          Publish (event_topic lib (mqtt_broker_topic_prefix st) kvs)
            (PDict (enriched (dahua_details st) kvs))]) evs)\<rparr>
    \<and> map_of (enriched (dahua_details st) kvs) k =
        (if k \<in> fst ` set (dahua_details st) \<and> k \<in> {''deviceType'', ''serialNumber''}
         then map_of (dahua_details st) k else map_of kvs k)
    \<and> event_topic lib (PStr topic_prefix) ((''Code'', PStr code) # others)
        = topic_prefix @ ''/'' @ code @ ''/Event''"
proof -
  from publish_events_ok [OF assms(2)] assms(1)
  have a: "handle_notify_event_stream lib (PDict ps) st =
      st\<lparr>effects := effects st @ concat (map (\<lambda>kvs.
         [Log DEBUG (PublishingMqttMessage (event_topic lib (mqtt_broker_topic_prefix st) kvs)
            (PDict (enriched (dahua_details st) kvs))),
          Publish (event_topic lib (mqtt_broker_topic_prefix st) kvs)
            (PDict (enriched (dahua_details st) kvs))]) evs)\<rparr>"
    by (simp add: handle_notify_event_stream_def py_get_def py_iter_def)
  have b: "map_of (enriched (dahua_details st) kvs) k =
        (if k \<in> fst ` set (dahua_details st) \<and> k \<in> {''deviceType'', ''serialNumber''}
         then map_of (dahua_details st) k else map_of kvs k)"
    using map_of_enriched [of "dahua_details st" kvs k]
    by (simp add: DAHUA_ALLOWED_DETAILS_def)
  have c: "event_topic lib (PStr topic_prefix) ((''Code'', PStr code) # others)
        = topic_prefix @ ''/'' @ code @ ''/Event''"
    by (simp add: event_topic_def py_str_def dict_get_def)
  from a b c show ?thesis by blast
qed

theorem event_dispatch_enrichment_witness:
  "published (effects (handle_notify_event_stream example_lib
       (PDict [(''eventList'', PList [PDict [(''Code'', PStr ''AlarmLocal'')]])])
       example_client)) =
     [(''Dahua/AlarmLocal/Event'',
       PDict [(''Code'', PStr ''AlarmLocal''), (''deviceType'', PStr ''X''),
              (''serialNumber'', PStr ''Y'')])]"
proof -
  have l: "dict_get [(''eventList'', PList [PDict [(''Code'', PStr ''AlarmLocal'')]])]
      ''eventList'' = PList (map PDict [[(''Code'', PStr ''AlarmLocal'')]])"
    by (simp add: dict_get_def)
  have r: "\<forall>kvs \<in> set [[(''Code'', PStr ''AlarmLocal'')]].
      \<not> publish_raises example_lib
          (event_topic example_lib (mqtt_broker_topic_prefix example_client) kvs)
          (PDict (enriched (dahua_details example_client) kvs))"
    by (simp add: example_lib_def)
  have e: "enriched (dahua_details example_client) [(''Code'', PStr ''AlarmLocal'')]
      = [(''Code'', PStr ''AlarmLocal''), (''deviceType'', PStr ''X''),
         (''serialNumber'', PStr ''Y'')]"
    by (simp add: enriched_def example_client_eq DAHUA_ALLOWED_DETAILS_def dict_get_def)
  have t: "mqtt_broker_topic_prefix example_client = PStr ''Dahua''"
    by (simp add: example_client_eq)
  have n: "published (effects example_client) = []"
    by (simp add: example_client_eq)
  from event_dispatch_enrichment [OF l r, of _ _ "''Dahua''" "''AlarmLocal''" "[]"]
  show ?thesis
    by (simp add: e t n published_append)
qed

subsection \<open>The last index\<close>

lemma rindex_from_snoc:
  "q \<noteq> c \<Longrightarrow> rindex_from c i (s @ [q]) found = rindex_from c i s found"
  by (induction s arbitrary: i found) simp_all

lemma rindex_from_bound:
  "rindex_from c i s found = Some j \<Longrightarrow> found = Some j \<or> (i \<le> j \<and> j < i + length s)"
proof (induction s arbitrary: i found)
  case Nil
  then show ?case by simp
next
  case (Cons x xs)
  from Cons.IH [OF Cons.prems [simplified]] show ?case
    by (auto split: if_splits)
qed

lemma py_rindex_snoc: "q \<noteq> c \<Longrightarrow> py_rindex (s @ [q]) c = py_rindex s c"
  by (simp add: py_rindex_def rindex_from_snoc)

lemma py_rindex_less: "py_rindex s c = Some j \<Longrightarrow> j < length s"
  using rindex_from_bound [of c 0 s None j] by (simp add: py_rindex_def)

subsection \<open>Splitting the text of a plain chunk\<close>

lemma nul_split_from_not_Nil: "nul_split_from cur bs \<noteq> []"
  by (induction bs arbitrary: cur) simp_all

lemma escape_nul: "escape_byte (CHR 0x27) (CHR 0x00) = nul_text"
  by (simp add: escape_byte_def nul_text_def digit_char_def)

lemma escape_plain:
  "plain_byte c \<Longrightarrow> c \<noteq> CHR 0x00 \<Longrightarrow> escape_byte (CHR 0x27) c = [c]"
  by (auto simp: plain_byte_def escape_byte_def)

lemma split_step_nul:
  "py_split_from nul_text cur (nul_text @ rest) = cur # py_split_from nul_text [] rest"
  by (simp add: nul_text_def)

lemma split_step_plain:
  "c \<noteq> CHR 0x5C \<Longrightarrow> py_split_from nul_text cur (c # rest) = py_split_from nul_text (cur @ [c]) rest"
  by (simp add: nul_text_def)

lemma split_plain_text:
  assumes "list_all plain_byte bs"
  shows "py_split_from nul_text cur (concat (map (escape_byte (CHR 0x27)) bs) @ [CHR 0x27]) =
    butlast (nul_split_from cur bs) @ [last (nul_split_from cur bs) @ [CHR 0x27]]"
  using assms
proof (induction bs arbitrary: cur)
  case Nil
  show ?case by (simp add: nul_text_def)
next
  case (Cons c bs)
  then have tl_plain: "list_all plain_byte bs" and c: "plain_byte c" by simp_all
  show ?case
  proof (cases "c = CHR 0x00")
    case True
    with Cons.IH [OF tl_plain, of "[]"] show ?thesis
      by (simp add: escape_nul split_step_nul nul_split_from_not_Nil del: py_split_from.simps)
  next
    case False
    from c have "c \<noteq> CHR 0x5C" by (auto simp: plain_byte_def)
    with False c Cons.IH [OF tl_plain, of "cur @ [c]"] show ?thesis
      by (simp add: escape_plain split_step_plain del: py_split_from.simps)
  qed
qed

lemma plain_quote: "list_all plain_byte bs \<Longrightarrow> bytes_quote bs = CHR 0x27"
  by (auto simp: bytes_quote_def list_all_iff plain_byte_def)

lemma nul_split_from_cur:
  "nul_split_from cur bs = (cur @ hd (nul_split_from [] bs)) # tl (nul_split_from [] bs)"
proof (induction bs arbitrary: cur)
  case Nil
  show ?case by simp
next
  case (Cons c bs)
  show ?case
  proof (cases "c = CHR 0x00")
    case True
    then show ?thesis by simp
  next
    case False
    with Cons.IH [of "cur @ [c]"] Cons.IH [of "[c]"] show ?thesis
      by simp
  qed
qed

lemma parts_of_plain:
  assumes "plain_chunk data"
  shows "py_split nul_text (str_bytes data) =
    butlast (nul_split_from [CHR ''b'', CHR 0x27] data)
      @ [last (nul_split_from [CHR ''b'', CHR 0x27] data) @ [CHR 0x27]]"
proof -
  from assms have p: "list_all plain_byte data" by (simp add: plain_chunk_def)
  have "py_split nul_text (str_bytes data) =
      py_split_from nul_text [] (CHR ''b'' # CHR 0x27 #
        concat (map (escape_byte (CHR 0x27)) data) @ [CHR 0x27])"
    by (simp add: py_split_def str_bytes_def plain_quote [OF p] Let_def del: py_split_from.simps)
  also have "\<dots> = py_split_from nul_text [CHR ''b'', CHR 0x27]
      (concat (map (escape_byte (CHR 0x27)) data) @ [CHR 0x27])"
    by (simp add: split_step_plain del: py_split_from.simps)
  finally show ?thesis
    by (simp only: split_plain_text [OF p])
qed

lemma brace_prefix_snoc: "prefix ''{'' (s @ [CHR 0x27]) = prefix ''{'' s"
  by (cases s) simp_all

lemma parse_last_quote:
  "parse_parts lib [s @ [CHR 0x27]] r = parse_parts lib [s] r"
proof (cases "py_rindex s (CHR ''}'')")
  case None
  then show ?thesis
    by (simp add: brace_prefix_snoc py_rindex_snoc)
next
  case (Some i)
  then have "i < length s" by (rule py_rindex_less)
  with Some show ?thesis
    by (simp add: brace_prefix_snoc py_rindex_snoc)
qed

lemma parse_parts_append:
  "parse_parts lib (xs @ ys) r =
     (case parse_parts lib xs r of
        (v, None) \<Rightarrow> parse_parts lib ys v
      | (v, Some e) \<Rightarrow> (v, Some e))"
  by (induction xs arbitrary: r) (simp_all add: Let_def split: option.splits)

lemma parse_parts_snoc_quote:
  "parse_parts lib (xs @ [s @ [CHR 0x27]]) r = parse_parts lib (xs @ [s]) r"
  by (simp only: parse_parts_append [of lib xs] parse_last_quote)

lemma parse_plain_chunk:
  assumes "plain_chunk data"
  shows "parse_response lib data = parse_parts lib (tl (nul_segments data)) PNone"
proof -
  obtain h t where segs: "nul_split_from [] data = h # t"
    using nul_split_from_not_Nil [of "[]" data] by (cases "nul_split_from [] data") simp_all
  then have b: "nul_split_from [CHR ''b'', CHR 0x27] data = ([CHR ''b'', CHR 0x27] @ h) # t"
    using nul_split_from_cur [of "[CHR ''b'', CHR 0x27]" data] by simp
  show ?thesis
  proof (cases "t = []")
    case True
    with b segs show ?thesis
      by (simp add: parse_response_def parts_of_plain [OF assms] nul_segments_def)
  next
    case False
    then have t: "butlast t @ [last t] = t" by simp
    from False b have "py_split nul_text (str_bytes data) =
        ([CHR ''b'', CHR 0x27] @ h) # butlast t @ [last t @ [CHR 0x27]]"
      by (simp add: parts_of_plain [OF assms])
    then have "parse_response lib data = parse_parts lib (butlast t @ [last t @ [CHR 0x27]]) PNone"
      by (simp add: parse_response_def)
    also have "\<dots> = parse_parts lib (butlast t @ [last t]) PNone"
      by (rule parse_parts_snoc_quote)
    finally show ?thesis
      by (simp add: t nul_segments_def segs)
  qed
qed

lemma parse_parts_no_brace:
  "\<forall>s \<in> set xs. \<not> prefix ''{'' s \<Longrightarrow> parse_parts lib xs r = (r, None)"
  by (induction xs) simp_all

lemma parse_parts_undecodable:
  assumes "undecodable lib bad"
  shows "fst (parse_parts lib (pre @ bad # post) r) = fst (parse_parts lib pre r)
    \<and> snd (parse_parts lib (pre @ bad # post) r) \<noteq> None"
proof -
  from assms have "\<exists>e. parse_parts lib (bad # post) v = (v, Some e)" for v
    by (auto simp: undecodable_def Let_def split: option.splits)
  then obtain e where "parse_parts lib (bad # post) (fst (parse_parts lib pre r))
      = (fst (parse_parts lib pre r), Some e)"
    by blast
  then show ?thesis
    by (cases "parse_parts lib pre r")
       (auto simp: parse_parts_append [of lib pre] split: option.splits)
qed

lemma parse_parts_last_object:
  assumes "snd (parse_parts lib pre r) = None"
    and "prefix ''{'' s" and "py_rindex s (CHR ''}'') = Some i"
    and "json_loads lib (take (i + 1) s) = Some v"
    and "\<forall>x \<in> set post. \<not> prefix ''{'' x"
  shows "parse_parts lib (pre @ s # post) r = (v, None)"
  using assms
  by (cases "parse_parts lib pre r")
     (simp add: parse_parts_append [of lib pre] parse_parts_no_brace)

lemma rindex_from_last:
  "rindex_from c k s found = Some j \<Longrightarrow>
     (k \<le> j \<and> j < k + length s \<and> s ! (j - k) = c
        \<and> (\<forall>m. j - k < m \<and> m < length s \<longrightarrow> s ! m \<noteq> c))
     \<or> (found = Some j \<and> c \<notin> set s)"
proof (induction s arbitrary: k found)
  case Nil
  then show ?case by simp
next
  case (Cons x xs)
  from Cons.prems
  have "rindex_from c (Suc k) xs (if x = c then Some k else found) = Some j" by simp
  from Cons.IH [OF this]
  consider (later) "Suc k \<le> j" "j < Suc k + length xs" "xs ! (j - Suc k) = c"
      "\<forall>m. j - Suc k < m \<and> m < length xs \<longrightarrow> xs ! m \<noteq> c"
    | (here) "(if x = c then Some k else found) = Some j" "c \<notin> set xs"
    by blast
  then show ?case
  proof cases
    case later
    have "(x # xs) ! m \<noteq> c" if "j - k < m" "m < length (x # xs)" for m
    proof -
      from that later(1) obtain m' where m: "m = Suc m'" by (cases m) auto
      with that later(1) have "j - Suc k < m'" "m' < length xs" by auto
      with later(4) m show ?thesis by simp
    qed
    moreover from later(1) have "(x # xs) ! (j - k) = xs ! (j - Suc k)"
      by (simp add: nth_Cons')
    ultimately show ?thesis
      using later by auto
  next
    case here
    show ?thesis
    proof (cases "x = c")
      case True
      with here have "j = k" by simp
      moreover have "(x # xs) ! m \<noteq> c" if "0 < m" "m < length (x # xs)" for m
        using that here(2) by (cases m) (auto simp: in_set_conv_nth)
      ultimately show ?thesis using True by auto
    next
      case False
      with here show ?thesis by auto
    qed
  qed
qed

lemma py_rindex_last:
  assumes "py_rindex s c = Some i"
  shows "i < length s \<and> s ! i = c \<and> (\<forall>m. i < m \<and> m < length s \<longrightarrow> s ! m \<noteq> c)"
  using rindex_from_last [of c 0 s None i] assms by (simp add: py_rindex_def)

lemma plain_spec_chunk: "plain_chunk spec_chunk"
  by (simp add: plain_chunk_def plain_byte_def spec_chunk_def)

lemma segments_spec_chunk:
  "nul_segments spec_chunk = [[], ''{\"id\":1,\"foo\":\"a}b\"}'', ''garbage'', []]"
  by (simp add: nul_segments_def spec_chunk_def)

lemma rindex_spec_object: "py_rindex ''{\"id\":1,\"foo\":\"a}b\"}'' (CHR ''}'') = Some 19"
  by (simp add: py_rindex_def)

text \<open>
  C3, as stated, fails: the decoder splits the text that \<^verbatim>\<open>str()\<close> gives for the chunk,
  which begins with the letter b and a quote, so a segment that stands at the very
  beginning of the chunk is never parsed. The chunk is one segment, it begins with a
  brace and is a JSON object, and the decoder yields no message.
\<close>

theorem decode_first_segment_counterexample:
  "nul_segments bare_chunk = [''{\"id\":1}'']
   \<and> json_loads example_lib ''{\"id\":1}'' = Some (PDict [(''id'', PInt 1)])
   \<and> parse_response example_lib bare_chunk = (PNone, None)"
  by (simp add: bare_chunk_def nul_segments_def example_lib_def example_loads_def decode_simps)

text \<open>
  C3, amended. For every inbound chunk made of NUL bytes and printable ASCII characters
  other than the backslash and the apostrophe, the decoder goes through the NUL-delimited
  segments of the chunk after the first one, and for each of them that begins with a
  brace it parses the text up to the last closing brace of the segment as one JSON
  object, until one fails; it surfaces the object parsed last. From the bytes of the
  spec's example it extracts the object with foo = "a}b". A chunk none of whose segments
  after the first begins with a brace yields no message, and no exception.
\<close>

theorem decode_plain_chunk:
  "(plain_chunk data \<longrightarrow>
      parse_response lib data = parse_parts lib (tl (nul_segments data)) PNone)
   \<and> (py_rindex s (CHR ''}'') = Some i \<longrightarrow>
        i < length s \<and> s ! i = CHR ''}'' \<and> (\<forall>m. i < m \<and> m < length s \<longrightarrow> s ! m \<noteq> CHR ''}''))
   \<and> (plain_chunk data \<and> tl (nul_segments data) = pre @ s # post
        \<and> snd (parse_parts lib pre PNone) = None
        \<and> prefix ''{'' s \<and> py_rindex s (CHR ''}'') = Some i
        \<and> json_loads lib (take (i + 1) s) = Some v
        \<and> (\<forall>x \<in> set post. \<not> prefix ''{'' x)
      \<longrightarrow> parse_response lib data = (v, None))
   \<and> parse_response lib spec_chunk =
        (case json_loads lib ''{\"id\":1,\"foo\":\"a}b\"}'' of
           None \<Rightarrow> (PNone, Some JSONDecodeError)
         | Some obj \<Rightarrow> (obj, None))
   \<and> (plain_chunk data \<and> (\<forall>x \<in> set (tl (nul_segments data)). \<not> prefix ''{'' x)
      \<longrightarrow> parse_response lib data = (PNone, None))"
proof (intro conjI impI)
  assume "plain_chunk data"
  then show "parse_response lib data = parse_parts lib (tl (nul_segments data)) PNone"
    by (rule parse_plain_chunk)
next
  assume "py_rindex s (CHR ''}'') = Some i"
  from py_rindex_last [OF this]
  show "i < length s" and "s ! i = CHR ''}''"
    and "\<forall>m. i < m \<and> m < length s \<longrightarrow> s ! m \<noteq> CHR ''}''"
    by simp_all
next
  assume h: "plain_chunk data \<and> tl (nul_segments data) = pre @ s # post
        \<and> snd (parse_parts lib pre PNone) = None
        \<and> prefix ''{'' s \<and> py_rindex s (CHR ''}'') = Some i
        \<and> json_loads lib (take (i + 1) s) = Some v
        \<and> (\<forall>x \<in> set post. \<not> prefix ''{'' x)"
  then have p: "plain_chunk data" and t: "tl (nul_segments data) = pre @ s # post"
    and h1: "snd (parse_parts lib pre PNone) = None" and h2: "prefix ''{'' s"
    and h3: "py_rindex s (CHR ''}'') = Some i"
    and h4: "json_loads lib (take (i + 1) s) = Some v"
    and h5: "\<forall>x \<in> set post. \<not> prefix ''{'' x"
    by blast+
  from parse_parts_last_object [OF h1 h2 h3 h4 h5] p t
  show "parse_response lib data = (v, None)"
    by (simp add: parse_plain_chunk)
next
  show "parse_response lib spec_chunk =
        (case json_loads lib ''{\"id\":1,\"foo\":\"a}b\"}'' of
           None \<Rightarrow> (PNone, Some JSONDecodeError)
         | Some obj \<Rightarrow> (obj, None))"
    by (simp add: parse_plain_chunk [OF plain_spec_chunk] segments_spec_chunk
        rindex_spec_object split: option.splits)
next
  assume "plain_chunk data \<and> (\<forall>x \<in> set (tl (nul_segments data)). \<not> prefix ''{'' x)"
  then show "parse_response lib data = (PNone, None)"
    by (simp add: parse_plain_chunk parse_parts_no_brace)
qed

theorem decode_plain_chunk_witness:
  "plain_chunk spec_chunk
   \<and> parse_response example_lib spec_chunk =
       (PDict [(''id'', PInt 1), (''foo'', PStr ''a}b'')], None)
   \<and> plain_chunk (''garbage'' @ CHR 0x00 # ''more'')
   \<and> parse_response example_lib (''garbage'' @ CHR 0x00 # ''more'') = (PNone, None)"
proof -
  have l: "json_loads example_lib (take (19 + 1) ''{\"id\":1,\"foo\":\"a}b\"}'')
      = Some (PDict [(''id'', PInt 1), (''foo'', PStr ''a}b'')])"
    by (simp add: example_lib_def example_loads_def)
  have t: "tl (nul_segments spec_chunk) = [] @ ''{\"id\":1,\"foo\":\"a}b\"}'' # [''garbage'', []]"
    by (simp add: segments_spec_chunk)
  have a: "parse_response example_lib spec_chunk =
       (PDict [(''id'', PInt 1), (''foo'', PStr ''a}b'')], None)"
    using decode_plain_chunk [of spec_chunk example_lib "''{\"id\":1,\"foo\":\"a}b\"}''" 19
        "[]" "[''garbage'', []]" "PDict [(''id'', PInt 1), (''foo'', PStr ''a}b'')]"]
      plain_spec_chunk t rindex_spec_object l
    by simp
  have p: "plain_chunk (''garbage'' @ CHR 0x00 # ''more'')"
    by (simp add: plain_chunk_def plain_byte_def)
  have n: "\<forall>x \<in> set (tl (nul_segments (''garbage'' @ CHR 0x00 # ''more''))). \<not> prefix ''{'' x"
    by (simp add: nul_segments_def)
  have b: "parse_response example_lib (''garbage'' @ CHR 0x00 # ''more'') = (PNone, None)"
    using decode_plain_chunk [of "''garbage'' @ CHR 0x00 # ''more''" example_lib] p n
    by blast
  from plain_spec_chunk a p b show ?thesis by blast
qed

text \<open>
  C10, as stated, fails, for the reason C3 does: the first segment of this chunk begins
  with a brace and has no closing brace, yet the decoder does not stop at it; it goes on to
  the second segment and returns its object.
\<close>

theorem decoder_cutoff_counterexample:
  "nul_segments bad_first_chunk = [''{bad'', ''{\"id\":1}'']
   \<and> undecodable example_lib ''{bad''
   \<and> parse_response example_lib bad_first_chunk = (PDict [(''id'', PInt 1)], None)"
  by (simp add: bad_first_chunk_def nul_segments_def undecodable_def py_rindex_def
      example_lib_def example_loads_def decode_simps)

text \<open>
  C10, amended. For every inbound chunk made of NUL bytes and printable ASCII characters
  other than the backslash and the apostrophe: when a NUL-delimited segment after the
  first begins with a brace and has no closing brace, or its text up to the last closing
  brace is refused by the JSON parser, the decoder stops there. It returns what the scan
  of the segments before it (after the first) had reached, the object parsed last or no
  message, with the exception caught; the segments behind the failing one have no
  influence on the result.
\<close>

theorem decoder_cutoff:
  assumes "plain_chunk data"
    and "tl (nul_segments data) = pre @ bad # post"
    and "undecodable lib bad"
  shows "fst (parse_response lib data) = fst (parse_parts lib pre PNone)
    \<and> snd (parse_response lib data) \<noteq> None"
  using parse_parts_undecodable [OF assms(3), of pre post PNone] assms(1,2)
  by (simp add: parse_plain_chunk)

theorem decoder_cutoff_witness:
  "plain_chunk bad_middle_chunk
   \<and> tl (nul_segments bad_middle_chunk)
       = [''{\"id\":1}''] @ ''{bad'' # [''{\"id\":1,\"foo\":\"a}b\"}'']
   \<and> undecodable example_lib ''{bad''
   \<and> fst (parse_response example_lib bad_middle_chunk) = PDict [(''id'', PInt 1)]
   \<and> snd (parse_response example_lib bad_middle_chunk) \<noteq> None"
proof -
  have p: "plain_chunk bad_middle_chunk"
    by (simp add: plain_chunk_def plain_byte_def bad_middle_chunk_def)
  have t: "tl (nul_segments bad_middle_chunk)
       = [''{\"id\":1}''] @ ''{bad'' # [''{\"id\":1,\"foo\":\"a}b\"}'']"
    by (simp add: nul_segments_def bad_middle_chunk_def)
  have u: "undecodable example_lib ''{bad''"
    by (simp add: undecodable_def py_rindex_def)
  have e: "parse_parts example_lib [''{\"id\":1}''] PNone = (PDict [(''id'', PInt 1)], None)"
    by (simp add: py_rindex_def example_lib_def example_loads_def)
  from decoder_cutoff [OF p t u] e p t u show ?thesis
    by simp
qed

end
